theory Spec2Isabelle
  imports Complex_Main "HOL-Library.Word" "HOL-Library.Log_Nat"
begin

section \<open>The ETL job of \<open>etl.py\<close>: data model\<close>

text \<open>
  \<open>etl.py\<close> reads two families of JSON records with \<open>spark.read.json\<close> under an explicit
  schema and derives five tables from them. A DataFrame is modelled as the list of its
  rows: a bag, whose order carries no meaning. A nullable column is an \<open>option\<close>, with
  \<open>None\<close> for SQL \<open>NULL\<close>. A \<open>DoubleType\<close> value is a \<open>double\<close> (below), an \<open>IntegerType\<close>
  value is a 32-bit word and a \<open>LongType\<close> value a 64-bit word. A \<open>FloatType\<close> column
  holds integer-valued single-precision numbers here (epoch milliseconds), modelled by
  the integer they denote; see \<open>float32\<close> below for the rounding done on read.
\<close>

text \<open>
  A \<open>DoubleType\<close> value as it is stored: \<open>Double q\<close> is the finite double of value \<open>q\<close>,
  with \<open>Double 0\<close> for \<open>0.0\<close>; \<open>NegZero\<close> is \<open>-0.0\<close>; \<open>NaN\<close> is stored in one form. Two
  values of this type are equal when their stored forms are: that is the equality under
  which Spark 2 groups rows for \<open>distinct()\<close> and matches the keys of an equi-join. It is
  not the equality of floating-point numbers (\<open>fp_eq\<close> below), under which \<open>0.0\<close> and
  \<open>-0.0\<close> are equal and \<open>NaN\<close> differs from itself.
\<close>

datatype double = Double rat | NegZero | PosInfinity | NegInfinity | NaN

type_synonym 'a dataframe = "'a list"

text \<open>The song schema, lines 47-57 and again lines 166-176.\<close>

record song_record =
  artist_id :: "string option"
  artist_latitude :: "double option"
  artist_longitude :: "double option"
  artist_location :: "string option"
  artist_name :: "string option"
  song_id :: "string option"
  title :: "string option"
  duration :: "double option"
  year :: "double option"

text \<open>
  The log schema, lines 102-121. The column \<open>length\<close> is named \<open>length_col\<close>, since
  \<open>length\<close> is the length of a list in HOL, and the column \<open>method\<close> is named
  \<open>method_col\<close>, the word being reserved in Isabelle.
\<close>

record log_record =
  artist :: "string option"
  auth :: "string option"
  firstName :: "string option"
  gender :: "string option"
  itemInSession :: "64 word option"
  lastName :: "string option"
  length_col :: "double option"
  level :: "string option"
  location :: "string option"
  method_col :: "string option"
  page :: "string option"
  registration :: "int option"
  sessionId :: "32 word option"
  song :: "string option"
  status :: "32 word option"
  ts :: "int option"
  userAgent :: "string option"
  userId :: "string option"

subsection \<open>Reading\<close>

text \<open>
  \<open>FloatType\<close>: the JSON number is converted to the nearest single-precision number,
  ties to the even significand. For an integer \<open>n\<close> with \<open>\<bar>n\<bar> < 2^24\<close> that is \<open>n\<close>
  itself; a larger one keeps its 24 leading bits: with \<open>b\<close> the bit length of \<open>\<bar>n\<bar>\<close>
  (\<open>bitlen\<close>), the result is a multiple of \<open>2^(b - 24)\<close>. Magnitudes from \<open>2^128\<close> on,
  which single precision cannot hold, are outside the model.
\<close>

definition float32 :: "int \<Rightarrow> int" where
  "float32 n =
     (let a = \<bar>n\<bar> in
      if a < 2 ^ 24 then n
      else
        let q = 2 ^ nat (bitlen a - 24);
            m = a div q;
            r = a mod q;
            m' = (if q < 2 * r \<or> (2 * r = q \<and> odd m) then m + 1 else m)
        in sgn n * (m' * q))"

text \<open>
  \<open>spark.read.json(path, schema=schema)\<close>: the argument is the list of the files that
  the glob matches, each file the list of its records. Spark resolves the glob when the
  reader is called and raises \<open>AnalysisException: Path does not exist\<close> when it matches
  no file. Otherwise the records of all files are coerced to the schema.
\<close>

datatype error = AnalysisException

definition read_json :: "('a \<Rightarrow> 'a) \<Rightarrow> 'a list list \<Rightarrow> error + 'a dataframe" where
  "read_json schema files =
     (if files = [] then Inl AnalysisException else Inr (map schema (concat files)))"

definition song_schema :: "song_record \<Rightarrow> song_record" where
  "song_schema r = r"

definition log_schema :: "log_record \<Rightarrow> log_record" where
  "log_schema r =
     r\<lparr>registration := map_option float32 (registration r),
       ts := map_option float32 (ts r)\<rparr>"

section \<open>\<open>process_song_data\<close>\<close>

record songs_row =
  songs_song_id :: "string option"
  songs_artist_id :: "string option"
  songs_year :: "double option"
  songs_duration :: "double option"

record artists_row =
  artists_artist_id :: "string option"
  artists_name :: "string option"
  artists_location :: "string option"
  artists_latitude :: "double option"
  artists_longitude :: "double option"

text \<open>
  \<open>DataFrame.distinct()\<close>: one row of each class of rows that hold the same stored value
  in every column.
\<close>

definition distinct_rows :: "'a dataframe \<Rightarrow> 'a dataframe" where
  "distinct_rows df = remdups df"

text \<open>Line 65: \<open>df.select('song_id', 'artist_id', 'year', 'duration')\<close>.\<close>

definition songs_table :: "song_record dataframe \<Rightarrow> songs_row dataframe" where
  "songs_table df =
     map (\<lambda>r. \<lparr>songs_song_id = song_id r, songs_artist_id = artist_id r,
               songs_year = year r, songs_duration = duration r\<rparr>) df"

text \<open>Lines 74-78: the select with its aliases, then \<open>.distinct()\<close>.\<close>

definition artist_table :: "song_record dataframe \<Rightarrow> artists_row dataframe" where
  "artist_table df =
     distinct_rows
       (map (\<lambda>r. \<lparr>artists_artist_id = artist_id r, artists_name = artist_name r,
                  artists_location = artist_location r,
                  artists_latitude = artist_latitude r,
                  artists_longitude = artist_longitude r\<rparr>) df)"

section \<open>Timestamps\<close>

text \<open>
  A \<open>TimestampType\<close> value is a number of microseconds since 1970-01-01 00:00:00 UTC.
  The session time zone is UTC, and the calendar is the proleptic Gregorian one (Spark's
  calendar for every date after 1582).
\<close>

type_synonym timestamp = int

text \<open>
  \<open>df.ts / 1000\<close> is a division of doubles and \<open>.cast(TimestampType())\<close> multiplies by
  \<open>1000000\<close> and truncates to a whole number of microseconds. The model divides and
  multiplies exactly: double rounding moves the result by less than a microsecond, and for
  \<open>ts \<ge> 0\<close> never across a whole second, the only part that \<open>date_format\<close> keeps.
\<close>

definition divide_1000 :: "int \<Rightarrow> rat" where
  "divide_1000 x = of_int x / 1000"

definition truncate :: "rat \<Rightarrow> int" where
  "truncate d = (if 0 \<le> d then \<lfloor>d\<rfloor> else \<lceil>d\<rceil>)"

definition cast_timestamp :: "rat \<Rightarrow> timestamp" where
  "cast_timestamp d = truncate (d * 1000000)"

subsection \<open>Calendar fields\<close>

record calendar =
  cal_year :: int
  cal_month :: int
  cal_day :: int
  cal_hour :: int
  cal_minute :: int
  cal_second :: int

text \<open>Days since 1970-01-01 to year, month, day and back.\<close>

definition civil_from_days :: "int \<Rightarrow> int \<times> int \<times> int" where
  "civil_from_days z0 =
     (let z = z0 + 719468;
          era = z div 146097;
          doe = z - era * 146097;
          yoe = (doe - doe div 1460 + doe div 36524 - doe div 146096) div 365;
          doy = doe - (365 * yoe + yoe div 4 - yoe div 100);
          mp = (5 * doy + 2) div 153;
          d = doy - (153 * mp + 2) div 5 + 1;
          m = (if mp < 10 then mp + 3 else mp - 9);
          y = yoe + era * 400
      in (if m \<le> 2 then y + 1 else y, m, d))"

definition days_from_civil :: "int \<Rightarrow> int \<Rightarrow> int \<Rightarrow> int" where
  "days_from_civil y0 m d =
     (let y = (if m \<le> 2 then y0 - 1 else y0);
          era = y div 400;
          yoe = y - era * 400;
          doy = (153 * (if 2 < m then m - 3 else m + 9) + 2) div 5 + d - 1;
          doe = yoe * 365 + yoe div 4 - yoe div 100 + doy
      in era * 146097 + doe - 719468)"

definition fields_of :: "int \<Rightarrow> calendar" where
  "fields_of secs =
     (let days = secs div 86400;
          rest = secs mod 86400;
          ymd = civil_from_days days
      in \<lparr>cal_year = fst ymd, cal_month = fst (snd ymd), cal_day = snd (snd ymd),
          cal_hour = rest div 3600, cal_minute = rest mod 3600 div 60,
          cal_second = rest mod 60\<rparr>)"

definition seconds_of :: "calendar \<Rightarrow> int" where
  "seconds_of c =
     days_from_civil (cal_year c) (cal_month c) (cal_day c) * 86400
       + cal_hour c * 3600 + cal_minute c * 60 + cal_second c"

text \<open>The day number of the week, 1 for Monday to 7 for Sunday; day 0 was a Thursday.\<close>

definition day_number_of_week :: "int \<Rightarrow> int" where
  "day_number_of_week days = (days + 3) mod 7 + 1"

subsection \<open>Date patterns\<close>

text \<open>
  \<open>date_format\<close> and \<open>to_timestamp\<close> take a pattern of \<open>java.text.SimpleDateFormat\<close>:
  a run of one letter is a field, any other character stands for itself. The model covers
  the runs that \<open>etl.py\<close> writes (\<open>yyyy\<close> year, \<open>MM\<close> month, \<open>dd\<close> day of the month,
  \<open>HH\<close> hour, \<open>ss\<close> second, \<open>z\<close> zone name, \<open>u\<close> day number of the week) and \<open>mm\<close>,
  the minute; a pattern with any other run of letters is not modelled and gives \<open>None\<close>.
\<close>

datatype field = Year | Month | Day | Hour | Minute | Second | Zone | DayNumber

datatype token = Field field | Literal char

fun runs :: "string \<Rightarrow> (char \<times> nat) list" where
  "runs [] = []"
| "runs (c # cs) =
     (case runs cs of
        [] \<Rightarrow> [(c, 1)]
      | (c', n) # rs \<Rightarrow> if c' = c then (c, Suc n) # rs else (c, 1) # (c', n) # rs)"

definition is_letter :: "char \<Rightarrow> bool" where
  "is_letter c =
     (let k = (of_char c :: nat) in (65 \<le> k \<and> k \<le> 90) \<or> (97 \<le> k \<and> k \<le> 122))"

definition pattern_field :: "char \<Rightarrow> nat \<Rightarrow> field option" where
  "pattern_field c n =
     (if c = CHR ''y'' \<and> n = 4 then Some Year
      else if c = CHR ''M'' \<and> n = 2 then Some Month
      else if c = CHR ''d'' \<and> n = 2 then Some Day
      else if c = CHR ''H'' \<and> n = 2 then Some Hour
      else if c = CHR ''m'' \<and> n = 2 then Some Minute
      else if c = CHR ''s'' \<and> n = 2 then Some Second
      else if c = CHR ''z'' \<and> n = 1 then Some Zone
      else if c = CHR ''u'' \<and> n = 1 then Some DayNumber
      else None)"

definition run_tokens :: "char \<times> nat \<Rightarrow> token list option" where
  "run_tokens r =
     (if is_letter (fst r) then map_option (\<lambda>f. [Field f]) (pattern_field (fst r) (snd r))
      else Some (replicate (snd r) (Literal (fst r))))"

definition compile :: "string \<Rightarrow> token list option" where
  "compile p = map_option concat (those (map run_tokens (runs p)))"

subsection \<open>Formatting\<close>

definition digit_char :: "nat \<Rightarrow> char" where
  "digit_char d = ''0123456789'' ! d"

fun digits :: "nat \<Rightarrow> string" where
  "digits n = (if n < 10 then [digit_char n] else digits (n div 10) @ [digit_char (n mod 10)])"

declare digits.simps [simp del]

definition pad :: "nat \<Rightarrow> int \<Rightarrow> string" where
  "pad w n = (let ds = digits (nat n) in replicate (w - length ds) CHR ''0'' @ ds)"

definition year_of_era :: "int \<Rightarrow> int" where
  "year_of_era y = (if y \<le> 0 then 1 - y else y)"

fun format_field :: "field \<Rightarrow> int \<Rightarrow> string" where
  "format_field Year secs = pad 4 (year_of_era (cal_year (fields_of secs)))"
| "format_field Month secs = pad 2 (cal_month (fields_of secs))"
| "format_field Day secs = pad 2 (cal_day (fields_of secs))"
| "format_field Hour secs = pad 2 (cal_hour (fields_of secs))"
| "format_field Minute secs = pad 2 (cal_minute (fields_of secs))"
| "format_field Second secs = pad 2 (cal_second (fields_of secs))"
| "format_field Zone secs = ''UTC''"
| "format_field DayNumber secs = pad 1 (day_number_of_week (secs div 86400))"

fun format_token :: "int \<Rightarrow> token \<Rightarrow> string" where
  "format_token secs (Field f) = format_field f secs"
| "format_token secs (Literal c) = [c]"

text \<open>
  \<open>date_format(col, pattern)\<close>: Spark 2 formats \<open>new java.util.Date(timestamp / 1000)\<close>,
  a truncating division to milliseconds, and the formatter prints the fields of the
  second that holds this millisecond.
\<close>

definition trunc_div :: "int \<Rightarrow> int \<Rightarrow> int" where
  "trunc_div a b = sgn a * sgn b * (\<bar>a\<bar> div \<bar>b\<bar>)"

definition date_format :: "timestamp option \<Rightarrow> string \<Rightarrow> string option" where
  "date_format t p =
     (case t of
        None \<Rightarrow> None
      | Some us \<Rightarrow>
          (case compile p of
             None \<Rightarrow> None
           | Some toks \<Rightarrow> Some (concat (map (format_token (trunc_div us 1000 div 1000)) toks))))"

subsection \<open>Parsing\<close>

definition is_digit :: "char \<Rightarrow> bool" where
  "is_digit c = (let k = (of_char c :: nat) in 48 \<le> k \<and> k \<le> 57)"

definition number :: "string \<Rightarrow> int" where
  "number ds = foldl (\<lambda>n c. 10 * n + (int (of_char c) - 48)) 0 ds"

fun set_field :: "field \<Rightarrow> int \<Rightarrow> calendar \<Rightarrow> calendar" where
  "set_field Year v c = c\<lparr>cal_year := v\<rparr>"
| "set_field Month v c = c\<lparr>cal_month := v\<rparr>"
| "set_field Day v c = c\<lparr>cal_day := v\<rparr>"
| "set_field Hour v c = c\<lparr>cal_hour := v\<rparr>"
| "set_field Minute v c = c\<lparr>cal_minute := v\<rparr>"
| "set_field Second v c = c\<lparr>cal_second := v\<rparr>"
| "set_field Zone v c = c"
| "set_field DayNumber v c = c"

text \<open>
  The parser reads the text field by field into a calendar, a later field of the same
  kind replacing the earlier one, and leaves every field that the pattern does not name
  at its default. Text after the last field is ignored.
\<close>

fun parse_tokens :: "token list \<Rightarrow> string \<Rightarrow> calendar \<Rightarrow> calendar option" where
  "parse_tokens [] s c = Some c"
| "parse_tokens (Literal x # toks) s c =
     (case s of [] \<Rightarrow> None | y # r \<Rightarrow> if x = y then parse_tokens toks r c else None)"
| "parse_tokens (Field f # toks) s c =
     (if f = Zone then
        (if take 3 s = ''UTC'' then parse_tokens toks (drop 3 s) c else None)
      else if takeWhile is_digit s = [] then None
      else parse_tokens toks (dropWhile is_digit s)
             (set_field f (number (takeWhile is_digit s)) c))"

definition default_calendar :: calendar where
  "default_calendar =
     \<lparr>cal_year = 1970, cal_month = 1, cal_day = 1, cal_hour = 0, cal_minute = 0,
      cal_second = 0\<rparr>"

text \<open>\<open>to_timestamp(col, pattern)\<close>: \<open>NULL\<close> when the text does not parse.\<close>

definition to_timestamp :: "string option \<Rightarrow> string \<Rightarrow> timestamp option" where
  "to_timestamp s p =
     (case s of
        None \<Rightarrow> None
      | Some str \<Rightarrow>
          (case compile p of
             None \<Rightarrow> None
           | Some toks \<Rightarrow>
               map_option (\<lambda>c. seconds_of c * 1000000) (parse_tokens toks str default_calendar)))"

subsection \<open>Functions of a timestamp column\<close>

text \<open>
  \<open>hour\<close>, \<open>dayofmonth\<close>, \<open>weekofyear\<close>, \<open>month\<close> and \<open>year\<close> of \<open>pyspark.sql.functions\<close>,
  named \<open>sql_...\<close> here; each is \<open>NULL\<close> on \<open>NULL\<close>. They are modelled for timestamps
  from 1970 on. Their results, of \<open>IntegerType\<close> in Spark, are small numbers and are kept
  as \<open>int\<close>.
\<close>

definition sql_hour :: "timestamp option \<Rightarrow> int option" where
  "sql_hour t = map_option (\<lambda>us. cal_hour (fields_of (us div 1000000))) t"

definition sql_dayofmonth :: "timestamp option \<Rightarrow> int option" where
  "sql_dayofmonth t = map_option (\<lambda>us. cal_day (fields_of (us div 1000000))) t"

definition sql_month :: "timestamp option \<Rightarrow> int option" where
  "sql_month t = map_option (\<lambda>us. cal_month (fields_of (us div 1000000))) t"

definition sql_year :: "timestamp option \<Rightarrow> int option" where
  "sql_year t = map_option (\<lambda>us. cal_year (fields_of (us div 1000000))) t"

text \<open>
  The ISO week of the year: the week of a day is numbered in the year that holds the
  Thursday of that week.
\<close>

definition iso_week :: "int \<Rightarrow> int" where
  "iso_week days =
     (let thursday = days - (day_number_of_week days - 1) + 3;
          y = fst (civil_from_days thursday)
      in (thursday - days_from_civil y 1 1) div 7 + 1)"

definition sql_weekofyear :: "timestamp option \<Rightarrow> int option" where
  "sql_weekofyear t = map_option (\<lambda>us. iso_week (us div 1000000 div 86400)) t"

section \<open>\<open>process_log_data\<close>\<close>

record users_row =
  users_user_id :: "string option"
  users_first_name :: "string option"
  users_last_name :: "string option"
  users_gender :: "string option"
  users_level :: "string option"

record time_select =
  time_start_time :: "timestamp option"
  time_hour :: "int option"
  time_day :: "int option"
  time_week :: "int option"
  time_month :: "int option"
  time_year :: "int option"

record time_row = time_select +
  time_weekday :: "string option"

record plays_row =
  plays_songplay_id :: "64 word"
  plays_start_time :: "timestamp option"
  plays_user_id :: "string option"
  plays_level :: "string option"
  plays_song_id :: "string option"
  plays_artist_id :: "string option"
  plays_session_id :: "32 word option"
  plays_location :: "string option"
  plays_user_agent :: "string option"
  plays_month :: "int option"
  plays_year :: "int option"

text \<open>
  Line 130: \<open>df.filter(df.page == 'NextSong')\<close>. A row whose \<open>page\<close> is \<open>NULL\<close> makes
  the condition \<open>NULL\<close> and is dropped.
\<close>

definition df_filtered :: "log_record dataframe \<Rightarrow> log_record dataframe" where
  "df_filtered df = filter (\<lambda>r. page r = Some ''NextSong'') df"

text \<open>Lines 134-138.\<close>

definition users_table :: "log_record dataframe \<Rightarrow> users_row dataframe" where
  "users_table df =
     distinct_rows
       (map (\<lambda>r. \<lparr>users_user_id = userId r, users_first_name = firstName r,
                  users_last_name = lastName r, users_gender = gender r,
                  users_level = level r\<rparr>) (df_filtered df))"

text \<open>
  Lines 147-148: the column \<open>ts\<close> is replaced by the timestamp that \<open>to_timestamp\<close> reads
  back from the text that \<open>date_format\<close> printed, both under \<open>ts_format\<close>.
\<close>

definition ts_format :: string where
  "ts_format = ''yyyy-MM-dd HH:MM:ss z''"

definition start_time_of :: "int option \<Rightarrow> timestamp option" where
  "start_time_of x =
     to_timestamp
       (date_format (map_option (\<lambda>ms. cast_timestamp (divide_1000 ms)) x) ts_format)
       ts_format"

definition convert_ts :: "log_record \<Rightarrow> log_record" where
  "convert_ts r = r\<lparr>ts := start_time_of (ts r)\<rparr>"

definition with_timestamp :: "log_record dataframe \<Rightarrow> log_record dataframe" where
  "with_timestamp df = map convert_ts (df_filtered df)"

text \<open>Lines 152-157: the select, then \<open>.distinct()\<close>.\<close>

definition time_select_of :: "log_record \<Rightarrow> time_select" where
  "time_select_of r =
     \<lparr>time_start_time = ts r, time_hour = sql_hour (ts r), time_day = sql_dayofmonth (ts r),
      time_week = sql_weekofyear (ts r), time_month = sql_month (ts r),
      time_year = sql_year (ts r)\<rparr>"

text \<open>Line 159: \<open>withColumn('weekday', date_format('start_time', 'u'))\<close>.\<close>

definition with_weekday :: "time_select \<Rightarrow> time_row" where
  "with_weekday r =
     \<lparr>time_start_time = time_start_time r, time_hour = time_hour r, time_day = time_day r,
      time_week = time_week r, time_month = time_month r, time_year = time_year r,
      time_weekday = date_format (time_start_time r) ''u''\<rparr>"

definition time_table :: "log_record dataframe \<Rightarrow> time_row dataframe" where
  "time_table df = map with_weekday (distinct_rows (map time_select_of (with_timestamp df)))"

subsection \<open>The join\<close>

text \<open>
  Column comparison and \<open>&\<close> follow SQL's three-valued logic; an inner join keeps the
  pairs of rows on which the condition is true. The condition of lines 184-186 is a
  conjunction of three equalities between a column of each side, which Spark runs as an
  equi-join on three keys: two keys match when they hold the same stored value, so a
  duration \<open>0.0\<close> does not match a length \<open>-0.0\<close>.
\<close>

definition sql_eq :: "'a option \<Rightarrow> 'a option \<Rightarrow> bool option" where
  "sql_eq a b =
     (case a of None \<Rightarrow> None | Some x \<Rightarrow> (case b of None \<Rightarrow> None | Some y \<Rightarrow> Some (x = y)))"

definition sql_and :: "bool option \<Rightarrow> bool option \<Rightarrow> bool option" where
  "sql_and a b =
     (if a = Some False \<or> b = Some False then Some False
      else if a = Some True \<and> b = Some True then Some True
      else None)"

text \<open>Lines 184-186.\<close>

definition join_condition :: "song_record \<Rightarrow> log_record \<Rightarrow> bool option" where
  "join_condition s l =
     sql_and (sql_and (sql_eq (artist l) (artist_name s)) (sql_eq (song l) (title s)))
       (sql_eq (length_col l) (duration s))"

definition join :: "song_record dataframe \<Rightarrow> log_record dataframe
    \<Rightarrow> (song_record \<times> log_record) dataframe" where
  "join song_df df =
     concat (map (\<lambda>s. map (Pair s) (filter (\<lambda>l. join_condition s l = Some True) df)) song_df)"

subsection \<open>\<open>monotonically_increasing_id\<close>\<close>

text \<open>
  Spark numbers the rows of each partition of the DataFrame from 0 and puts the index of
  the partition, a 32-bit integer, above bit 33 of the 64-bit id. How the rows of the join
  are spread over partitions is the engine's choice: the session carries it here as the
  sizes of the successive partitions, the rows that remain forming the last one.
\<close>

record spark_session =
  partition_sizes :: "nat list"

fun partitions :: "nat list \<Rightarrow> 'a list \<Rightarrow> 'a list list" where
  "partitions [] rows = [rows]"
| "partitions (n # ns) rows = take n rows # partitions ns (drop n rows)"

definition monotonically_increasing_id :: "nat \<Rightarrow> nat \<Rightarrow> 64 word" where
  "monotonically_increasing_id p i = push_bit 33 (word_of_nat p) + word_of_nat i"

fun number_rows :: "nat \<Rightarrow> nat \<Rightarrow> 'a list \<Rightarrow> (64 word \<times> 'a) list" where
  "number_rows p i [] = []"
| "number_rows p i (r # rows) = (monotonically_increasing_id p i, r) # number_rows p (Suc i) rows"

fun number_partitions :: "nat \<Rightarrow> 'a list list \<Rightarrow> (64 word \<times> 'a) list" where
  "number_partitions p [] = []"
| "number_partitions p (rows # rest) = number_rows p 0 rows @ number_partitions (Suc p) rest"

definition with_songplay_id :: "spark_session \<Rightarrow> 'a dataframe \<Rightarrow> (64 word \<times> 'a) dataframe" where
  "with_songplay_id spark df = number_partitions 0 (partitions (partition_sizes spark) df)"

text \<open>Lines 194-204.\<close>

definition plays_select :: "64 word \<times> song_record \<times> log_record \<Rightarrow> plays_row" where
  "plays_select x =
     (case x of (i, s, l) \<Rightarrow>
        \<lparr>plays_songplay_id = i, plays_start_time = ts l, plays_user_id = userId l,
         plays_level = level l, plays_song_id = song_id s, plays_artist_id = artist_id s,
         plays_session_id = sessionId l, plays_location = location l,
         plays_user_agent = userAgent l, plays_month = sql_month (ts l),
         plays_year = sql_year (ts l)\<rparr>)"

definition song_plays :: "spark_session \<Rightarrow> song_record dataframe \<Rightarrow> log_record dataframe
    \<Rightarrow> plays_row dataframe" where
  "song_plays spark song_df df =
     map plays_select (with_songplay_id spark (join song_df (with_timestamp df)))"

section \<open>The pipeline\<close>

text \<open>
  The input root holds the files that the two globs match; the output root holds one
  table per destination, \<open>None\<close> while nothing has been written there. Each write is in
  mode \<open>overwrite\<close>. A run that raises is modelled by its exception alone: what it had
  written before is not part of the result. \<open>partitionBy\<close> changes the layout of the files
  of a table, not its rows, and is left out.
\<close>

record input_data =
  song_data :: "song_record list list"
  log_data :: "log_record list list"

record output_data =
  songs_parquet :: "songs_row dataframe option"
  artist_parquet :: "artists_row dataframe option"
  users_parquet :: "users_row dataframe option"
  time_parquet :: "time_row dataframe option"
  song_plays_parquet :: "plays_row dataframe option"

definition process_song_data :: "spark_session \<Rightarrow> input_data \<Rightarrow> output_data
    \<Rightarrow> error + output_data" where
  "process_song_data spark inp out =
     (case read_json song_schema (song_data inp) of
        Inl e \<Rightarrow> Inl e
      | Inr df \<Rightarrow>
          Inr (out\<lparr>songs_parquet := Some (songs_table df),
                   artist_parquet := Some (artist_table df)\<rparr>))"

definition process_log_data :: "spark_session \<Rightarrow> input_data \<Rightarrow> output_data
    \<Rightarrow> error + output_data" where
  "process_log_data spark inp out =
     (case read_json log_schema (log_data inp) of
        Inl e \<Rightarrow> Inl e
      | Inr df \<Rightarrow>
          (let out1 = out\<lparr>users_parquet := Some (users_table df),
                           time_parquet := Some (time_table df)\<rparr>
           in case read_json song_schema (song_data inp) of
                Inl e \<Rightarrow> Inl e
              | Inr song_df \<Rightarrow>
                  Inr (out1\<lparr>song_plays_parquet := Some (song_plays spark song_df df)\<rparr>)))"

definition empty_output :: output_data where
  "empty_output =
     \<lparr>songs_parquet = None, artist_parquet = None, users_parquet = None,
      time_parquet = None, song_plays_parquet = None\<rparr>"

definition main :: "spark_session \<Rightarrow> input_data \<Rightarrow> error + output_data" where
  "main spark inp =
     (case process_song_data spark inp empty_output of
        Inl e \<Rightarrow> Inl e
      | Inr out \<Rightarrow> process_log_data spark inp out)"

section \<open>Notions of the specification\<close>

text \<open>
  The ISO weekday number: Monday is 1 and Sunday is 7. The day of the week of a day
  counted from 1970-01-01, which was a Thursday, by the seven-day cycle.
\<close>

datatype weekday = Monday | Tuesday | Wednesday | Thursday | Friday | Saturday | Sunday

fun iso_weekday_number :: "weekday \<Rightarrow> nat" where
  "iso_weekday_number Monday = 1"
| "iso_weekday_number Tuesday = 2"
| "iso_weekday_number Wednesday = 3"
| "iso_weekday_number Thursday = 4"
| "iso_weekday_number Friday = 5"
| "iso_weekday_number Saturday = 6"
| "iso_weekday_number Sunday = 7"

definition weekday_of_day :: "int \<Rightarrow> weekday" where
  "weekday_of_day d =
     [Thursday, Friday, Saturday, Sunday, Monday, Tuesday, Wednesday] ! nat (d mod 7)"

text \<open>The day, counted from 1970-01-01, that holds a timestamp.\<close>

definition day_of_timestamp :: "timestamp \<Rightarrow> int" where
  "day_of_timestamp t = t div 86400000000"

text \<open>
  The three-column match of the join, on the columns as they are: all six values
  present and pairwise the same stored value.
\<close>

definition matches :: "song_record \<Rightarrow> log_record \<Rightarrow> bool" where
  "matches s l \<longleftrightarrow>
     artist l \<noteq> None \<and> artist l = artist_name s \<and> song l \<noteq> None \<and> song l = title s
       \<and> length_col l \<noteq> None \<and> length_col l = duration s"

text \<open>Equality of floating-point numbers, the \<open>==\<close> of IEEE 754.\<close>

definition fp_eq :: "double \<Rightarrow> double \<Rightarrow> bool" where
  "fp_eq a b \<longleftrightarrow>
     a \<noteq> NaN \<and> b \<noteq> NaN
       \<and> (a = b \<or> (a = Double 0 \<and> b = NegZero) \<or> (a = NegZero \<and> b = Double 0))"

section \<open>Example data\<close>

definition song_example :: song_record where
  "song_example =
     \<lparr>artist_id = Some ''AR1'', artist_latitude = None, artist_longitude = None,
      artist_location = Some ''London'', artist_name = Some ''Artist'',
      song_id = Some ''SO1'', title = Some ''Song'', duration = Some (Double 200),
      year = Some (Double 2004)\<rparr>"

text \<open>A log record of the given user, page and \<open>ts\<close> (epoch milliseconds).\<close>

definition log_example :: "string \<Rightarrow> string \<Rightarrow> int \<Rightarrow> log_record" where
  "log_example u p t =
     \<lparr>artist = Some ''Artist'', auth = Some ''Logged In'', firstName = Some ''Ann'',
      gender = Some ''F'', itemInSession = Some 0, lastName = Some ''Lee'',
      length_col = Some (Double 200), level = Some ''free'', location = Some ''Leeds'',
      method_col = Some ''PUT'', page = Some p, registration = Some 0,
      sessionId = Some 1, song = Some ''Song'', status = Some 200, ts = Some t,
      userAgent = Some ''Mozilla'', userId = Some u\<rparr>"

definition spark_example :: spark_session where
  "spark_example = \<lparr>partition_sizes = [1]\<rparr>"

text \<open>A second song, by the same artist and of the same duration, under another title.\<close>

definition song_other :: song_record where
  "song_other = song_example\<lparr>song_id := Some ''SO2'', title := Some ''Other''\<rparr>"

text \<open>A song of duration \<open>0.0\<close> and a play of length \<open>-0.0\<close> of the same song.\<close>

definition song_zero :: song_record where
  "song_zero = song_example\<lparr>duration := Some (Double 0)\<rparr>"

definition log_negative_zero :: log_record where
  "log_negative_zero = (log_example ''7'' ''NextSong'' 0)\<lparr>length_col := Some NegZero\<rparr>"

text \<open>A play without \<open>ts\<close>.\<close>

definition log_without_ts :: log_record where
  "log_without_ts = (log_example ''7'' ''NextSong'' 0)\<lparr>ts := None\<rparr>"

section \<open>Properties\<close>

subsection \<open>Rows of the tables\<close>

lemma distinct_artist_table: "distinct (artist_table df)"
  by (simp add: artist_table_def distinct_rows_def)

lemma distinct_users_table: "distinct (users_table df)"
  by (simp add: users_table_def distinct_rows_def)

lemma inj_with_weekday: "inj with_weekday"
proof (rule injI)
  fix a b :: time_select
  assume "with_weekday a = with_weekday b"
  then show "a = b"
    by (cases a, cases b) (simp add: with_weekday_def)
qed

lemma distinct_time_table: "distinct (time_table df)"
  by (simp add: time_table_def distinct_rows_def distinct_map inj_on_subset [OF inj_with_weekday])

lemma set_time_table:
  "set (time_table df) = (\<lambda>l. with_weekday (time_select_of l)) ` set (with_timestamp df)"
  by (simp add: time_table_def distinct_rows_def image_image)

lemma set_with_timestamp:
  "set (with_timestamp df) = convert_ts ` {l \<in> set df. page l = Some ''NextSong''}"
  by (simp add: with_timestamp_def df_filtered_def)

lemma df_filtered_idem:
  "df_filtered [l\<leftarrow>df. page l = Some ''NextSong''] = df_filtered df"
  by (simp add: df_filtered_def)

lemma with_timestamp_filter:
  "with_timestamp [l\<leftarrow>df. page l = Some ''NextSong''] = with_timestamp df"
  by (simp add: with_timestamp_def df_filtered_idem)

lemma with_timestamp_no_next_song:
  "\<forall>l\<in>set df. page l \<noteq> Some ''NextSong'' \<Longrightarrow> with_timestamp df = []"
  by (simp add: with_timestamp_def df_filtered_def filter_empty_conv)

lemma concat_partitions: "concat (partitions ns rows) = rows"
  by (induction ns arbitrary: rows) simp_all

lemma length_partitions: "length (partitions ns rows) = Suc (length ns)"
  by (induction ns arbitrary: rows) simp_all

lemma map_snd_number_rows: "map snd (number_rows p i rows) = rows"
  by (induction rows arbitrary: i) simp_all

lemma map_snd_number_partitions: "map snd (number_partitions p parts) = concat parts"
  by (induction parts arbitrary: p) (simp_all add: map_snd_number_rows)

lemma map_snd_with_songplay_id: "map snd (with_songplay_id spark df) = df"
  by (simp add: with_songplay_id_def map_snd_number_partitions concat_partitions)

lemma set_with_songplay_id: "snd ` set (with_songplay_id spark df) = set df"
proof -
  have "set (map snd (with_songplay_id spark df)) = set df"
    by (simp only: map_snd_with_songplay_id)
  then show ?thesis by simp
qed

lemma join_condition_matches: "join_condition s l = Some True \<longleftrightarrow> matches s l"
  by (auto simp: join_condition_def matches_def sql_and_def sql_eq_def split: option.splits)

lemma set_join:
  "set (join song_df df) = {(s, l). s \<in> set song_df \<and> l \<in> set df \<and> matches s l}"
  by (auto simp: join_def join_condition_matches)

lemma set_song_plays:
  "set (song_plays spark song_df df) =
     plays_select ` set (with_songplay_id spark (join song_df (with_timestamp df)))"
  by (simp add: song_plays_def)

lemma matches_convert_ts: "matches s (convert_ts l) = matches s l"
  by (simp add: matches_def convert_ts_def)

lemma song_plays_no_rows: "with_timestamp df = [] \<Longrightarrow> song_plays spark song_df df = []"
proof -
  assume e: "with_timestamp df = []"
  have "join song_df [] = []"
    by (induction song_df) (simp_all add: join_def)
  then have "map snd (with_songplay_id spark (join song_df (with_timestamp df))) = []"
    using e by (simp add: map_snd_with_songplay_id)
  then show ?thesis by (simp add: song_plays_def)
qed

lemma time_row_columns:
  assumes "t \<in> set (time_table df)"
  shows "time_month t = sql_month (time_start_time t)"
    and "time_year t = sql_year (time_start_time t)"
    and "time_weekday t = date_format (time_start_time t) ''u''"
    and "\<exists>l\<in>set (with_timestamp df). time_start_time t = ts l"
  using assms by (auto simp: set_time_table with_weekday_def time_select_of_def)

lemma plays_row_columns:
  assumes "f \<in> set (song_plays spark song_df df)"
  shows "plays_month f = sql_month (plays_start_time f)"
    and "plays_year f = sql_year (plays_start_time f)"
    and "\<exists>l\<in>set (with_timestamp df). plays_start_time f = ts l"
    and "\<exists>s\<in>set song_df. plays_song_id f = song_id s \<and> plays_artist_id f = artist_id s"
proof -
  from assms obtain i s l
    where x: "(i, s, l) \<in> set (with_songplay_id spark (join song_df (with_timestamp df)))"
      and f: "f = plays_select (i, s, l)"
    by (auto simp: set_song_plays)
  from x have "snd (i, s, l) \<in> snd ` set (with_songplay_id spark (join song_df (with_timestamp df)))"
    by (rule imageI)
  then have "(s, l) \<in> set (join song_df (with_timestamp df))"
    by (simp add: set_with_songplay_id)
  then have sl: "s \<in> set song_df" "l \<in> set (with_timestamp df)"
    by (simp_all add: set_join)
  show "plays_month f = sql_month (plays_start_time f)"
    and "plays_year f = sql_year (plays_start_time f)"
    by (simp_all add: f plays_select_def)
  show "\<exists>l\<in>set (with_timestamp df). plays_start_time f = ts l"
    using sl(2) by (auto simp: f plays_select_def)
  show "\<exists>s\<in>set song_df. plays_song_id f = song_id s \<and> plays_artist_id f = artist_id s"
    using sl(1) by (auto simp: f plays_select_def)
qed

lemma ts_convert_ts:
  "ts (convert_ts r) = None \<or> (\<exists>k. ts (convert_ts r) = Some (k * 1000000))"
  by (auto simp: convert_ts_def start_time_of_def to_timestamp_def split: option.splits)

lemma tables_of_no_rows:
  "songs_table [] = []" "artist_table [] = []" "users_table [] = []" "time_table [] = []"
  "song_plays spark [] [] = []"
  by (simp_all add: songs_table_def artist_table_def users_table_def time_table_def
      distinct_rows_def df_filtered_def with_timestamp_def song_plays_no_rows)

subsection \<open>Evaluation on the example data\<close>

lemma float32_small: "\<bar>n\<bar> < 2 ^ 24 \<Longrightarrow> float32 n = n"
  by (simp add: float32_def)

lemma float32_examples:
  "float32 1541106106796 = 1541106171904" "float32 1541106107796 = 1541106171904"
  "float32 1541106171904 = 1541106171904"
  by code_simp+

lemma start_time_of_0: "start_time_of (Some 0) = Some 0"
  by code_simp

lemma start_time_of_examples:
  "start_time_of (Some 1541106171904) = Some 1541106051000000"
  "start_time_of (Some 1541106106796) = Some 1541106046000000"
  "start_time_of (Some 1541106107796) = Some 1541106047000000"
  by code_simp+

lemma thirty_minutes:
  "cast_timestamp (divide_1000 1800000) = 1800000000"
  "date_format (Some 1800000000) ts_format = Some ''1970-01-01 00:01:00 UTC''"
  "to_timestamp (Some ''1970-01-01 00:01:00 UTC'') ts_format = Some 0"
  "start_time_of (Some 1800000) = Some 0"
  by code_simp+

lemma realistic_instant:
  "cast_timestamp (divide_1000 1541106171904) = 1541106171904000"
  "date_format (Some 1541106171904000) ts_format = Some ''2018-11-01 21:11:51 UTC''"
  by code_simp+

lemma time_columns_0:
  "sql_hour (Some 0) = Some 0" "sql_dayofmonth (Some 0) = Some 1"
  "sql_weekofyear (Some 0) = Some 1" "sql_month (Some 0) = Some 1"
  "sql_year (Some 0) = Some 1970" "date_format (Some 0) ''u'' = Some ''4''"
  by code_simp+

lemma convert_ts_example: "convert_ts (log_example u p 0) = log_example u p 0"
  by (simp add: convert_ts_def log_example_def start_time_of_0)

lemma log_schema_example: "log_schema (log_example u p 0) = log_example u p 0"
  by (simp add: log_schema_def log_example_def float32_small)

lemma page_example: "page (log_example u p t) = Some p"
  by (simp add: log_example_def)

lemma time_row_example:
  "with_weekday (time_select_of (log_example u p 0)) =
     \<lparr>time_start_time = Some 0, time_hour = Some 0, time_day = Some 1, time_week = Some 1,
      time_month = Some 1, time_year = Some 1970, time_weekday = Some ''4''\<rparr>"
  by (simp add: with_weekday_def time_select_of_def time_columns_0) (simp add: log_example_def time_columns_0)

lemma matches_example: "matches song_example (log_example u p t)"
  by (simp add: matches_def song_example_def log_example_def)

lemma monotonically_increasing_id_0: "monotonically_increasing_id 0 0 = 0"
  by (simp add: monotonically_increasing_id_def)

lemma with_timestamp_example:
  "with_timestamp [log_example ''7'' ''NextSong'' 0, log_example ''8'' ''Login'' 0]
     = [log_example ''7'' ''NextSong'' 0]"
  by (simp add: with_timestamp_def df_filtered_def page_example convert_ts_example)

lemma join_example:
  "join [song_example] [log_example ''7'' ''NextSong'' 0]
     = [(song_example, log_example ''7'' ''NextSong'' 0)]"
  by (simp add: join_def join_condition_matches matches_example)

lemma with_songplay_id_example:
  "with_songplay_id spark_example [x] = [(0, x)]"
  by (simp add: with_songplay_id_def spark_example_def monotonically_increasing_id_0)

lemma time_table_example:
  "time_table (map log_schema [log_example ''7'' ''NextSong'' 0]) =
     [\<lparr>time_start_time = Some 0, time_hour = Some 0, time_day = Some 1, time_week = Some 1,
       time_month = Some 1, time_year = Some 1970, time_weekday = Some ''4''\<rparr>]"
  by (simp add: time_table_def with_timestamp_def df_filtered_def distinct_rows_def
      log_schema_example page_example convert_ts_example time_row_example)

subsection \<open>Dimension tables\<close>

text \<open>
  Claim C1: no dimension table holds two identical rows; in particular the songs table holds
  at most one row per distinct projected row. The artists, users and time tables are
  deduplicated (\<open>distinct_artist_table\<close>, \<open>distinct_users_table\<close>, \<open>distinct_time_table\<close>),
  but line 65 builds the songs table without \<open>.distinct()\<close>: two files that hold the same
  song record give a songs table with two identical rows.
\<close>

theorem songs_table_duplicate_rows:
  "process_song_data spark_example \<lparr>song_data = [[song_example], [song_example]], log_data = []\<rparr>
       empty_output
     = Inr (empty_output
         \<lparr>songs_parquet := Some
            [\<lparr>songs_song_id = Some ''SO1'', songs_artist_id = Some ''AR1'',
              songs_year = Some (Double 2004), songs_duration = Some (Double 200)\<rparr>,
             \<lparr>songs_song_id = Some ''SO1'', songs_artist_id = Some ''AR1'',
              songs_year = Some (Double 2004), songs_duration = Some (Double 200)\<rparr>],
          artist_parquet := Some
            [\<lparr>artists_artist_id = Some ''AR1'', artists_name = Some ''Artist'',
              artists_location = Some ''London'', artists_latitude = None,
              artists_longitude = None\<rparr>]\<rparr>)
   \<and> \<not> distinct (songs_table [song_example, song_example])"
  by (simp add: process_song_data_def read_json_def song_schema_def songs_table_def
      artist_table_def distinct_rows_def song_example_def)

subsection \<open>The timestamp format\<close>

text \<open>
  Claim C2: \<open>start_time\<close> is \<open>ts / 1000\<close> read as a timestamp, minutes and seconds
  included. \<open>ts_format\<close> has the month letters \<open>MM\<close> where the minutes \<open>mm\<close> belong, so the
  text printed for 1970-01-01 00:30:00 (\<open>ts = 1800000\<close>) is \<open>1970-01-01 00:01:00 UTC\<close>,
  the month in the place of the minutes, and it is read back with minute 0: the start time is
  00:00:00 in both tables. Likewise 2018-11-01 21:02:51 becomes 21:00:51.
\<close>

theorem start_time_drops_minutes:
  "map ts (map log_schema [log_example ''7'' ''NextSong'' 1800000]) = [Some 1800000]
   \<and> cast_timestamp (divide_1000 1800000) = 1800000000
   \<and> date_format (Some 1800000000) ts_format = Some ''1970-01-01 00:01:00 UTC''
   \<and> to_timestamp (Some ''1970-01-01 00:01:00 UTC'') ts_format = Some 0
   \<and> map time_start_time (time_table (map log_schema [log_example ''7'' ''NextSong'' 1800000]))
       = [Some 0]
   \<and> map plays_start_time
        (song_plays spark_example [song_example]
           (map log_schema [log_example ''7'' ''NextSong'' 1800000]))
       = [Some 0]
   \<and> float32 1541106171904 = 1541106171904
   \<and> cast_timestamp (divide_1000 1541106171904) = 1541106171904000
   \<and> date_format (Some 1541106171904000) ts_format = Some ''2018-11-01 21:11:51 UTC''
   \<and> start_time_of (Some 1541106171904) = Some 1541106051000000"
proof -
  have l: "log_schema (log_example ''7'' ''NextSong'' 1800000)
      = log_example ''7'' ''NextSong'' 1800000"
    by (simp add: log_schema_def log_example_def float32_small)
  have c: "convert_ts (log_example ''7'' ''NextSong'' 1800000) = log_example ''7'' ''NextSong'' 0"
    by (simp add: convert_ts_def log_example_def thirty_minutes)
  have w: "with_timestamp [log_example ''7'' ''NextSong'' 1800000] = [log_example ''7'' ''NextSong'' 0]"
    by (simp add: with_timestamp_def df_filtered_def page_example c)
  have t: "map time_start_time (time_table [log_example ''7'' ''NextSong'' 1800000]) = [Some 0]"
    by (simp add: time_table_def w distinct_rows_def time_row_example)
  have p: "map plays_start_time
        (song_plays spark_example [song_example] [log_example ''7'' ''NextSong'' 1800000]) = [Some 0]"
    by (simp add: song_plays_def w join_example with_songplay_id_example plays_select_def)
      (simp add: log_example_def)
  have "map ts [log_example ''7'' ''NextSong'' 1800000] = [Some 1800000]"
    by (simp add: log_example_def)
  with t p show ?thesis
    by (simp add: l thirty_minutes float32_examples realistic_instant start_time_of_examples)
qed

subsection \<open>The weekday\<close>

lemma compile_u: "compile ''u'' = Some [Field DayNumber]"
  by code_simp

lemma whole_seconds: "trunc_div (k * 1000000) 1000 div 1000 = k"
proof -
  have "\<bar>k * 1000000\<bar> div 1000 = \<bar>k\<bar> * 1000"
    by (simp add: abs_mult)
  then have "trunc_div (k * 1000000) 1000 = sgn k * (\<bar>k\<bar> * 1000)"
    by (simp add: trunc_div_def sgn_mult)
  also have "\<dots> = k * 1000"
    by (simp add: mult.assoc [symmetric] mult_sgn_abs)
  finally show ?thesis by simp
qed

lemma day_number_of_week_iso:
  "day_number_of_week d = int (iso_weekday_number (weekday_of_day d))"
proof -
  have "0 \<le> d mod 7" "d mod 7 < 7" by simp_all
  then consider "d mod 7 = 0" | "d mod 7 = 1" | "d mod 7 = 2" | "d mod 7 = 3"
    | "d mod 7 = 4" | "d mod 7 = 5" | "d mod 7 = 6" by linarith
  then show ?thesis
  proof cases
    case 1
    moreover from 1 have "(d + 3) mod 7 = 3" by presburger
    ultimately show ?thesis by (simp add: day_number_of_week_def weekday_of_day_def)
  next
    case 2
    moreover from 2 have "(d + 3) mod 7 = 4" by presburger
    ultimately show ?thesis by (simp add: day_number_of_week_def weekday_of_day_def)
  next
    case 3
    moreover from 3 have "(d + 3) mod 7 = 5" by presburger
    ultimately show ?thesis by (simp add: day_number_of_week_def weekday_of_day_def)
  next
    case 4
    moreover from 4 have "(d + 3) mod 7 = 6" by presburger
    ultimately show ?thesis by (simp add: day_number_of_week_def weekday_of_day_def)
  next
    case 5
    moreover from 5 have "(d + 3) mod 7 = 0" by presburger
    ultimately show ?thesis by (simp add: day_number_of_week_def weekday_of_day_def)
  next
    case 6
    moreover from 6 have "(d + 3) mod 7 = 1" by presburger
    ultimately show ?thesis by (simp add: day_number_of_week_def weekday_of_day_def)
  next
    case 7
    moreover from 7 have "(d + 3) mod 7 = 2" by presburger
    ultimately show ?thesis by (simp add: day_number_of_week_def weekday_of_day_def)
  qed
qed

lemma iso_weekday_number_range: "1 \<le> iso_weekday_number w \<and> iso_weekday_number w \<le> 7"
  by (cases w) simp_all

lemma pad_1: "pad (Suc 0) (int n) = digits n"
proof -
  have "1 \<le> length (digits n)"
    by (subst digits.simps) simp
  then show ?thesis by (simp add: pad_def Let_def)
qed

lemma date_format_u:
  "date_format (Some (k * 1000000)) ''u''
     = Some (digits (iso_weekday_number (weekday_of_day (k div 86400))))"
  by (simp add: date_format_def compile_u whole_seconds day_number_of_week_iso pad_1)

lemma day_of_whole_seconds: "day_of_timestamp (k * 1000000) = k div 86400"
proof -
  have "k * 1000000 div (1000000 * 86400) = k div 86400"
    by (simp add: zdiv_zmult2_eq)
  then show ?thesis by (simp add: day_of_timestamp_def)
qed

lemma start_time_whole_seconds:
  assumes "r \<in> set (time_table df)" "time_start_time r = Some t"
  shows "\<exists>k. t = k * 1000000"
proof -
  from time_row_columns(4) [OF assms(1)] obtain l
    where "l \<in> set (with_timestamp df)" "time_start_time r = ts l" by blast
  then obtain l0 where "time_start_time r = ts (convert_ts l0)"
    by (auto simp: with_timestamp_def)
  with ts_convert_ts [of l0] assms(2) show ?thesis by auto
qed

lemma date_format_null: "date_format None p = None"
  by (simp add: date_format_def)

lemma time_row_without_ts:
  "with_weekday (time_select_of (convert_ts (log_schema log_without_ts))) =
     \<lparr>time_start_time = None, time_hour = None, time_day = None, time_week = None,
      time_month = None, time_year = None, time_weekday = None\<rparr>"
  by (simp add: with_weekday_def time_select_of_def convert_ts_def log_schema_def
      log_without_ts_def log_example_def start_time_of_def date_format_def to_timestamp_def
      sql_hour_def sql_dayofmonth_def sql_weekofyear_def sql_month_def sql_year_def)

lemma page_log_without_ts: "page (log_schema log_without_ts) = Some ''NextSong''"
  by (simp add: log_schema_def log_without_ts_def log_example_def)

text \<open>
  Claim C3 says that the weekday of every row of the time table is an integer from 1 to 7.
  As stated it fails: a \<open>NextSong\<close> row without \<open>ts\<close> gives a row of the time table whose
  \<open>start_time\<close> and weekday are \<open>NULL\<close>.
\<close>

theorem weekday_null_without_ts:
  "page log_without_ts = Some ''NextSong'' \<and> ts log_without_ts = None
   \<and> time_table (map log_schema [log_without_ts]) =
       [\<lparr>time_start_time = None, time_hour = None, time_day = None, time_week = None,
         time_month = None, time_year = None, time_weekday = None\<rparr>]"
proof -
  have "time_table (map log_schema [log_without_ts]) =
       [\<lparr>time_start_time = None, time_hour = None, time_day = None, time_week = None,
         time_month = None, time_year = None, time_weekday = None\<rparr>]"
    by (simp add: time_table_def with_timestamp_def df_filtered_def distinct_rows_def
        page_log_without_ts time_row_without_ts)
  then show ?thesis by (simp add: log_without_ts_def log_example_def)
qed

text \<open>
  Claim C3, amended: the weekday of a row of the time table whose \<open>start_time\<close> is not
  \<open>NULL\<close> is the text of the ISO weekday number of \<open>start_time\<close>, from 1 for Monday to 7
  for Sunday, and the weekday of a row whose \<open>start_time\<close> is \<open>NULL\<close> is \<open>NULL\<close>. With the
  session time zone UTC, a \<open>ts\<close> of 0 gives 1970-01-01, hour 0, and weekday 4, a Thursday.
\<close>

theorem weekday_is_iso_weekday_number:
  "(\<forall>r\<in>set (time_table df). \<forall>t. time_start_time r = Some t \<longrightarrow>
       time_weekday r
         = Some (digits (iso_weekday_number (weekday_of_day (day_of_timestamp t))))
       \<and> 1 \<le> iso_weekday_number (weekday_of_day (day_of_timestamp t))
       \<and> iso_weekday_number (weekday_of_day (day_of_timestamp t)) \<le> 7)
   \<and> (\<forall>r\<in>set (time_table df). time_start_time r = None \<longrightarrow> time_weekday r = None)
   \<and> time_table (map log_schema [log_example ''7'' ''NextSong'' 0]) =
       [\<lparr>time_start_time = Some 0, time_hour = Some 0, time_day = Some 1, time_week = Some 1,
         time_month = Some 1, time_year = Some 1970, time_weekday = Some ''4''\<rparr>]
   \<and> weekday_of_day (day_of_timestamp 0) = Thursday
   \<and> digits (iso_weekday_number Thursday) = ''4''"
proof (intro conjI ballI allI impI)
  fix r t assume r: "r \<in> set (time_table df)" and t: "time_start_time r = Some t"
  from start_time_whole_seconds [OF r t] obtain k where k: "t = k * 1000000" by blast
  have "time_weekday r = date_format (Some (k * 1000000)) ''u''"
    using time_row_columns(3) [OF r] t k by simp
  then show "time_weekday r
      = Some (digits (iso_weekday_number (weekday_of_day (day_of_timestamp t))))"
    by (simp only: date_format_u k day_of_whole_seconds)
next
  fix t
  show "1 \<le> iso_weekday_number (weekday_of_day (day_of_timestamp t))"
    and "iso_weekday_number (weekday_of_day (day_of_timestamp t)) \<le> 7"
    using iso_weekday_number_range [of "weekday_of_day (day_of_timestamp t)"] by simp_all
next
  fix r assume "r \<in> set (time_table df)" and "time_start_time r = None"
  then show "time_weekday r = None"
    using time_row_columns(3) by (simp add: date_format_null)
next
  show "time_table (map log_schema [log_example ''7'' ''NextSong'' 0]) =
       [\<lparr>time_start_time = Some 0, time_hour = Some 0, time_day = Some 1, time_week = Some 1,
         time_month = Some 1, time_year = Some 1970, time_weekday = Some ''4''\<rparr>]"
    by (rule time_table_example)
next
  show "weekday_of_day (day_of_timestamp 0) = Thursday"
    by (simp add: weekday_of_day_def day_of_timestamp_def)
next
  show "digits (iso_weekday_number Thursday) = ''4''"
    by (simp add: digits.simps digit_char_def)
qed

theorem weekday_is_iso_weekday_number_witness:
  "\<lparr>time_start_time = Some 0, time_hour = Some 0, time_day = Some 1, time_week = Some 1,
     time_month = Some 1, time_year = Some 1970, time_weekday = Some ''4''\<rparr>
     \<in> set (time_table (map log_schema [log_example ''7'' ''NextSong'' 0]))
   \<and> Some ''4'' = Some (digits (iso_weekday_number (weekday_of_day (day_of_timestamp 0))))"
proof -
  let ?r = "\<lparr>time_start_time = Some 0, time_hour = Some 0, time_day = Some 1, time_week = Some 1,
     time_month = Some 1, time_year = Some 1970, time_weekday = Some ''4''\<rparr>"
  let ?df = "map log_schema [log_example ''7'' ''NextSong'' 0]"
  have m: "?r \<in> set (time_table ?df)"
    by (simp only: time_table_example) simp
  have s: "time_start_time ?r = Some 0" by simp
  from weekday_is_iso_weekday_number [of ?df] m s
  have "time_weekday ?r = Some (digits (iso_weekday_number (weekday_of_day (day_of_timestamp 0))))"
    by blast
  with m show ?thesis by simp
qed

subsection \<open>The join\<close>

lemma pairs_of_song_plays:
  "snd ` set (with_songplay_id spark (join song_df (with_timestamp df)))
     = {(s, convert_ts l) | s l. s \<in> set song_df \<and> l \<in> set df \<and> page l = Some ''NextSong''
          \<and> matches s l}"
  by (auto simp: set_with_songplay_id set_join set_with_timestamp matches_convert_ts)

lemma song_plays_rows:
  "set (song_plays spark song_df df)
     \<subseteq> {plays_select (i, s, convert_ts l) | i s l.
          s \<in> set song_df \<and> l \<in> set df \<and> page l = Some ''NextSong'' \<and> matches s l}"
proof
  fix f assume "f \<in> set (song_plays spark song_df df)"
  then obtain i s l
    where x: "(i, s, l) \<in> set (with_songplay_id spark (join song_df (with_timestamp df)))"
      and f: "f = plays_select (i, s, l)"
    by (auto simp: set_song_plays)
  from x have "snd (i, s, l) \<in> snd ` set (with_songplay_id spark (join song_df (with_timestamp df)))"
    by (rule imageI)
  then obtain l0 where "s \<in> set song_df" "l0 \<in> set df" "page l0 = Some ''NextSong''"
      "matches s l0" "l = convert_ts l0"
    by (auto simp: pairs_of_song_plays)
  with f show "f \<in> {plays_select (i, s, convert_ts l) | i s l.
          s \<in> set song_df \<and> l \<in> set df \<and> page l = Some ''NextSong'' \<and> matches s l}"
    by blast
qed

lemma song_plays_of_pair:
  assumes "s \<in> set song_df" "l \<in> set df" "page l = Some ''NextSong''" "matches s l"
  shows "\<exists>i. plays_select (i, s, convert_ts l) \<in> set (song_plays spark song_df df)"
proof -
  have "(s, convert_ts l) \<in> snd ` set (with_songplay_id spark (join song_df (with_timestamp df)))"
    using assms by (auto simp: pairs_of_song_plays)
  then obtain i where "(i, s, convert_ts l) \<in> set (with_songplay_id spark (join song_df (with_timestamp df)))"
    by force
  then show ?thesis by (auto simp: set_song_plays)
qed

lemma not_matches_other: "\<not> matches song_other (log_example u p t)"
  by (simp add: matches_def song_other_def song_example_def log_example_def)

lemma join_two_songs:
  "join [song_other, song_example] [log_example ''7'' ''NextSong'' 0]
     = [(song_example, log_example ''7'' ''NextSong'' 0)]"
  by (simp add: join_def join_condition_matches matches_example not_matches_other)

lemma plays_select_example:
  "plays_select (0, song_example, log_example ''7'' ''NextSong'' 0) =
     \<lparr>plays_songplay_id = 0, plays_start_time = Some 0, plays_user_id = Some ''7'',
      plays_level = Some ''free'', plays_song_id = Some ''SO1'', plays_artist_id = Some ''AR1'',
      plays_session_id = Some 1, plays_location = Some ''Leeds'',
      plays_user_agent = Some ''Mozilla'', plays_month = Some 1, plays_year = Some 1970\<rparr>"
  by (simp add: plays_select_def time_columns_0)
    (simp add: log_example_def song_example_def time_columns_0)

text \<open>
  Claim C4 says that a filtered log row gives a row of the song-plays table exactly when
  some song record has its artist name and title and, by floating-point equality, its
  duration. As stated it fails: a duration \<open>0.0\<close> and a length \<open>-0.0\<close> are equal floating-point
  numbers, but they are two stored values and the join does not match them.
\<close>

theorem zero_duration_not_joined:
  "page log_negative_zero = Some ''NextSong''
   \<and> artist_name song_zero = artist log_negative_zero
   \<and> title song_zero = song log_negative_zero
   \<and> duration song_zero = Some (Double 0) \<and> length_col log_negative_zero = Some NegZero
   \<and> fp_eq (Double 0) NegZero
   \<and> song_plays spark_example [song_zero] [log_negative_zero] = []"
proof -
  have "join_condition song_zero (convert_ts log_negative_zero) = Some False"
    by (simp add: join_condition_def sql_and_def sql_eq_def song_zero_def song_example_def
        log_negative_zero_def log_example_def convert_ts_def)
  then have "join [song_zero] (with_timestamp [log_negative_zero]) = []"
    by (simp add: join_def with_timestamp_def df_filtered_def)
  then have "map snd (with_songplay_id spark_example (join [song_zero] (with_timestamp [log_negative_zero]))) = []"
    by (simp only: map_snd_with_songplay_id)
  then have "song_plays spark_example [song_zero] [log_negative_zero] = []"
    by (simp add: song_plays_def)
  then show ?thesis
    by (simp add: fp_eq_def song_zero_def song_example_def log_negative_zero_def log_example_def)
qed

text \<open>
  Claim C4, amended: the join keeps exactly the pairs of a song record and a filtered log
  row whose artist name and artist, title and song, duration and length are present and
  hold the same stored value, and the song-plays table is the projection of these pairs,
  numbered. So a filtered log row gives a row exactly when some song record matches it in
  this sense, the row carrying the identifiers of that record; a row without a match is
  dropped, and the song and artist identifiers of every row are those of a record of the
  song source.
\<close>

theorem inner_join_on_three_columns:
  "set (join song_df (with_timestamp df))
       = {(s, l). s \<in> set song_df \<and> l \<in> set (with_timestamp df) \<and> matches s l}
   \<and> map snd (with_songplay_id spark (join song_df (with_timestamp df)))
       = join song_df (with_timestamp df)
   \<and> song_plays spark song_df df
       = map plays_select (with_songplay_id spark (join song_df (with_timestamp df)))
   \<and> (\<forall>l\<in>set (df_filtered df).
       (\<exists>i s. (i, s, convert_ts l) \<in> set (with_songplay_id spark (join song_df (with_timestamp df))))
         \<longleftrightarrow> (\<exists>s\<in>set song_df. matches s l))
   \<and> (\<forall>s\<in>set song_df. \<forall>l\<in>set (df_filtered df). matches s l
         \<longrightarrow> (\<exists>i. plays_select (i, s, convert_ts l) \<in> set (song_plays spark song_df df)))
   \<and> (\<forall>f\<in>set (song_plays spark song_df df).
         \<exists>s\<in>set song_df. \<exists>l\<in>set (df_filtered df). \<exists>i.
           matches s l \<and> f = plays_select (i, s, convert_ts l))
   \<and> (\<forall>f\<in>set (song_plays spark song_df df).
         \<exists>s\<in>set song_df. plays_song_id f = song_id s \<and> plays_artist_id f = artist_id s)"
proof (intro conjI ballI impI)
  show "set (join song_df (with_timestamp df))
       = {(s, l). s \<in> set song_df \<and> l \<in> set (with_timestamp df) \<and> matches s l}"
    by (rule set_join)
next
  show "map snd (with_songplay_id spark (join song_df (with_timestamp df)))
       = join song_df (with_timestamp df)"
    by (rule map_snd_with_songplay_id)
next
  show "song_plays spark song_df df
       = map plays_select (with_songplay_id spark (join song_df (with_timestamp df)))"
    by (simp add: song_plays_def)
next
  fix l assume l: "l \<in> set (df_filtered df)"
  let ?J = "join song_df (with_timestamp df)"
  have in_ts: "convert_ts l \<in> set (with_timestamp df)"
    using l by (simp add: with_timestamp_def)
  show "(\<exists>i s. (i, s, convert_ts l) \<in> set (with_songplay_id spark ?J))
         \<longleftrightarrow> (\<exists>s\<in>set song_df. matches s l)"
  proof
    assume "\<exists>i s. (i, s, convert_ts l) \<in> set (with_songplay_id spark ?J)"
    then obtain i s where x: "(i, s, convert_ts l) \<in> set (with_songplay_id spark ?J)" by blast
    then have "snd (i, s, convert_ts l) \<in> snd ` set (with_songplay_id spark ?J)"
      by (rule imageI)
    then have "(s, convert_ts l) \<in> set ?J" by (simp add: set_with_songplay_id)
    then show "\<exists>s\<in>set song_df. matches s l"
      by (auto simp: set_join matches_convert_ts)
  next
    assume "\<exists>s\<in>set song_df. matches s l"
    then obtain s where "s \<in> set song_df" "matches s l" by blast
    with in_ts have "(s, convert_ts l) \<in> set ?J"
      by (simp add: set_join matches_convert_ts)
    then have "(s, convert_ts l) \<in> snd ` set (with_songplay_id spark ?J)"
      by (simp add: set_with_songplay_id)
    then show "\<exists>i s. (i, s, convert_ts l) \<in> set (with_songplay_id spark ?J)"
      by force
  qed
next
  fix s l assume "s \<in> set song_df" "l \<in> set (df_filtered df)" "matches s l"
  then show "\<exists>i. plays_select (i, s, convert_ts l) \<in> set (song_plays spark song_df df)"
    by (intro song_plays_of_pair) (simp_all add: df_filtered_def)
next
  fix f assume "f \<in> set (song_plays spark song_df df)"
  with song_plays_rows [of spark song_df df]
  obtain i s l where "s \<in> set song_df" "l \<in> set df" "page l = Some ''NextSong''"
      "matches s l" "f = plays_select (i, s, convert_ts l)"
    by blast
  moreover from this have "l \<in> set (df_filtered df)"
    by (simp add: df_filtered_def)
  ultimately show "\<exists>s\<in>set song_df. \<exists>l\<in>set (df_filtered df). \<exists>i.
           matches s l \<and> f = plays_select (i, s, convert_ts l)"
    by blast
next
  fix f assume "f \<in> set (song_plays spark song_df df)"
  then show "\<exists>s\<in>set song_df. plays_song_id f = song_id s \<and> plays_artist_id f = artist_id s"
    by (rule plays_row_columns(4))
qed

theorem inner_join_on_three_columns_witness:
  "log_example ''7'' ''NextSong'' 0
     \<in> set (df_filtered [log_example ''7'' ''NextSong'' 0, log_example ''8'' ''Login'' 0])
   \<and> matches song_example (log_example ''7'' ''NextSong'' 0)
   \<and> \<not> matches song_other (log_example ''7'' ''NextSong'' 0)
   \<and> (\<exists>i. plays_select (i, song_example, convert_ts (log_example ''7'' ''NextSong'' 0))
         \<in> set (song_plays spark_example [song_other, song_example]
              [log_example ''7'' ''NextSong'' 0, log_example ''8'' ''Login'' 0]))
   \<and> song_plays spark_example [song_other, song_example]
        [log_example ''7'' ''NextSong'' 0, log_example ''8'' ''Login'' 0]
      = [\<lparr>plays_songplay_id = 0, plays_start_time = Some 0, plays_user_id = Some ''7'',
          plays_level = Some ''free'', plays_song_id = Some ''SO1'', plays_artist_id = Some ''AR1'',
          plays_session_id = Some 1, plays_location = Some ''Leeds'',
          plays_user_agent = Some ''Mozilla'', plays_month = Some 1, plays_year = Some 1970\<rparr>]"
proof -
  let ?df = "[log_example ''7'' ''NextSong'' 0, log_example ''8'' ''Login'' 0]"
  let ?songs = "[song_other, song_example]"
  have l: "log_example ''7'' ''NextSong'' 0 \<in> set (df_filtered ?df)"
    by (simp add: df_filtered_def page_example)
  have s: "song_example \<in> set ?songs" by simp
  have m: "matches song_example (log_example ''7'' ''NextSong'' 0)"
    by (rule matches_example)
  from inner_join_on_three_columns [of ?songs ?df spark_example] s l m
  have "\<exists>i. plays_select (i, song_example, convert_ts (log_example ''7'' ''NextSong'' 0))
         \<in> set (song_plays spark_example ?songs ?df)"
    by blast
  moreover have "song_plays spark_example ?songs ?df
      = [\<lparr>plays_songplay_id = 0, plays_start_time = Some 0, plays_user_id = Some ''7'',
          plays_level = Some ''free'', plays_song_id = Some ''SO1'', plays_artist_id = Some ''AR1'',
          plays_session_id = Some 1, plays_location = Some ''Leeds'',
          plays_user_agent = Some ''Mozilla'', plays_month = Some 1, plays_year = Some 1970\<rparr>]"
    by (simp add: song_plays_def with_timestamp_example join_two_songs with_songplay_id_example
        plays_select_example)
  ultimately show ?thesis using l m not_matches_other by blast
qed

subsection \<open>The surrogate key\<close>

lemma unat_monotonically_increasing_id:
  assumes "p < 2 ^ 31" "i < 2 ^ 33"
  shows "unat (monotonically_increasing_id p i) = p * 2 ^ 33 + i"
proof -
  have "Suc p * 2 ^ 33 \<le> 2 ^ 31 * (2 ^ 33 :: nat)"
    using assms(1) by (intro mult_le_mono1) simp
  moreover have "p * 2 ^ 33 + i < Suc p * 2 ^ 33"
    using assms(2) by simp
  ultimately have b: "p * 2 ^ 33 + i < 2 ^ 64" by simp
  have e: "monotonically_increasing_id p i = (word_of_nat (p * 2 ^ 33 + i) :: 64 word)"
    by (simp add: monotonically_increasing_id_def push_bit_eq_mult)
  have "unat (word_of_nat (p * 2 ^ 33 + i) :: 64 word) = (p * 2 ^ 33 + i) mod 2 ^ 64"
    by (subst unat_of_nat) simp
  then have "unat (monotonically_increasing_id p i) = (p * 2 ^ 33 + i) mod 2 ^ 64"
    by (simp only: e)
  with b show ?thesis by simp
qed

lemma monotonically_increasing_id_inj:
  assumes "p < 2 ^ 31" "i < 2 ^ 33" "q < 2 ^ 31" "j < 2 ^ 33"
    and "monotonically_increasing_id p i = monotonically_increasing_id q j"
  shows "p = q \<and> i = j"
proof -
  have e: "p * 2 ^ 33 + i = q * 2 ^ 33 + j"
    using assms unat_monotonically_increasing_id by metis
  have "(p * 2 ^ 33 + i) div 2 ^ 33 = p" "(q * 2 ^ 33 + j) div 2 ^ 33 = q"
    using assms(2,4) by simp_all
  with e have "p = q" by simp
  with e show ?thesis by simp
qed

lemma ids_number_rows:
  "fst ` set (number_rows p i rows) = monotonically_increasing_id p ` {i..<i + length rows}"
proof (induction rows arbitrary: i)
  case Nil
  then show ?case by simp
next
  case (Cons r rows)
  have "{i..<i + length (r # rows)} = insert i {Suc i..<Suc i + length rows}"
    by auto
  then show ?case by (simp add: Cons.IH)
qed

lemma distinct_number_rows:
  assumes "p < 2 ^ 31" "i + length rows \<le> 2 ^ 33"
  shows "distinct (map fst (number_rows p i rows))"
  using assms(2)
proof (induction rows arbitrary: i)
  case Nil
  then show ?case by simp
next
  case (Cons r rows)
  have "monotonically_increasing_id p i \<notin> monotonically_increasing_id p ` {Suc i..<Suc i + length rows}"
  proof
    assume "monotonically_increasing_id p i \<in> monotonically_increasing_id p ` {Suc i..<Suc i + length rows}"
    then obtain j where j: "Suc i \<le> j" "j < Suc i + length rows"
      "monotonically_increasing_id p i = monotonically_increasing_id p j" by auto
    have "i < 2 ^ 33" "j < 2 ^ 33" using Cons.prems j by simp_all
    from monotonically_increasing_id_inj [OF assms(1) this(1) assms(1) this(2) j(3)] j(1)
    show False by simp
  qed
  moreover have "distinct (map fst (number_rows p (Suc i) rows))"
    using Cons.prems by (intro Cons.IH) simp
  ultimately show ?case by (simp add: ids_number_rows)
qed

lemma ids_number_partitions:
  assumes "x \<in> fst ` set (number_partitions p parts)"
    and "\<forall>rows\<in>set parts. length rows \<le> 2 ^ 33"
  shows "\<exists>q j. x = monotonically_increasing_id q j \<and> p \<le> q \<and> q < p + length parts \<and> j < 2 ^ 33"
  using assms
proof (induction parts arbitrary: p)
  case Nil
  then show ?case by simp
next
  case (Cons rows rest)
  from Cons.prems(1) consider "x \<in> fst ` set (number_rows p 0 rows)"
    | "x \<in> fst ` set (number_partitions (Suc p) rest)" by auto
  then show ?case
  proof cases
    case 1
    then obtain j where "j < length rows" "x = monotonically_increasing_id p j"
      by (auto simp: ids_number_rows)
    moreover have "length rows \<le> 2 ^ 33" using Cons.prems(2) by simp
    ultimately have "x = monotonically_increasing_id p j \<and> p \<le> p \<and> p < p + length (rows # rest) \<and> j < 2 ^ 33"
      by simp
    then show ?thesis by blast
  next
    case 2
    from Cons.IH [OF 2] Cons.prems(2) obtain q j
      where "x = monotonically_increasing_id q j" "Suc p \<le> q" "q < Suc p + length rest" "j < 2 ^ 33"
      by auto
    then have "x = monotonically_increasing_id q j \<and> p \<le> q \<and> q < p + length (rows # rest) \<and> j < 2 ^ 33"
      by simp
    then show ?thesis by blast
  qed
qed

lemma distinct_number_partitions:
  assumes "p + length parts \<le> 2 ^ 31" "\<forall>rows\<in>set parts. length rows \<le> 2 ^ 33"
  shows "distinct (map fst (number_partitions p parts))"
  using assms
proof (induction parts arbitrary: p)
  case Nil
  then show ?case by simp
next
  case (Cons rows rest)
  have p: "p < 2 ^ 31" and len: "length rows \<le> 2 ^ 33"
    using Cons.prems by simp_all
  have d1: "distinct (map fst (number_rows p 0 rows))"
    using p len by (intro distinct_number_rows) simp_all
  have d2: "distinct (map fst (number_partitions (Suc p) rest))"
    using Cons.prems by (intro Cons.IH) simp_all
  have "fst ` set (number_rows p 0 rows) \<inter> fst ` set (number_partitions (Suc p) rest) = {}"
  proof (rule ccontr)
    assume "fst ` set (number_rows p 0 rows) \<inter> fst ` set (number_partitions (Suc p) rest) \<noteq> {}"
    then obtain x where x1: "x \<in> fst ` set (number_rows p 0 rows)"
      and x2: "x \<in> fst ` set (number_partitions (Suc p) rest)" by blast
    from x1 obtain i where i: "i < length rows" "x = monotonically_increasing_id p i"
      by (auto simp: ids_number_rows)
    from ids_number_partitions [OF x2] Cons.prems(2) obtain q j
      where q: "x = monotonically_increasing_id q j" "Suc p \<le> q" "q < Suc p + length rest" "j < 2 ^ 33"
      by auto
    have "i < 2 ^ 33" using i(1) len by simp
    moreover have "q < 2 ^ 31" using q(3) Cons.prems(1) by simp
    moreover have "monotonically_increasing_id p i = monotonically_increasing_id q j"
      using i(2) q(1) by simp
    ultimately have "p = q" using monotonically_increasing_id_inj p q(4) by blast
    with q(2) show False by simp
  qed
  with d1 d2 show ?case by simp
qed

lemma songplay_ids: "plays_songplay_id \<circ> plays_select = fst"
  by (auto simp: fun_eq_iff plays_select_def)

text \<open>
  Claim C5: the \<open>songplay_id\<close> values of the rows of one song-plays table are pairwise
  different. Spark's identifier holds the partition index above bit 33, so this needs what
  Spark documents: fewer than \<open>2^31\<close> partitions, an index being a 32-bit signed integer,
  and at most \<open>2^33\<close> rows in a partition.
\<close>

theorem songplay_id_unique:
  assumes "length (partition_sizes spark) < 2 ^ 31"
    and "\<forall>rows\<in>set (partitions (partition_sizes spark) (join song_df (with_timestamp df))).
           length rows \<le> 2 ^ 33"
  shows "distinct (map plays_songplay_id (song_plays spark song_df df))"
proof -
  let ?parts = "partitions (partition_sizes spark) (join song_df (with_timestamp df))"
  have "0 + length ?parts \<le> 2 ^ 31"
    using assms(1) by (simp add: length_partitions)
  from distinct_number_partitions [OF this assms(2)]
  show ?thesis by (simp add: song_plays_def with_songplay_id_def songplay_ids)
qed

theorem songplay_id_unique_witness:
  "length (partition_sizes spark_example) = 1
   \<and> map length (partitions (partition_sizes spark_example)
          (join [song_example]
             (with_timestamp [log_example ''7'' ''NextSong'' 0, log_example ''8'' ''NextSong'' 0])))
       = [1, 1]
   \<and> distinct (map plays_songplay_id
        (song_plays spark_example [song_example]
           [log_example ''7'' ''NextSong'' 0, log_example ''8'' ''NextSong'' 0]))
   \<and> length (song_plays spark_example [song_example]
           [log_example ''7'' ''NextSong'' 0, log_example ''8'' ''NextSong'' 0]) = 2"
proof -
  let ?df = "[log_example ''7'' ''NextSong'' 0, log_example ''8'' ''NextSong'' 0]"
  have w: "with_timestamp ?df = ?df"
    by (simp add: with_timestamp_def df_filtered_def page_example convert_ts_example)
  have j: "join [song_example] ?df
      = [(song_example, log_example ''7'' ''NextSong'' 0), (song_example, log_example ''8'' ''NextSong'' 0)]"
    by (simp add: join_def join_condition_matches matches_example)
  have h1: "length (partition_sizes spark_example) < 2 ^ 31"
    by (simp add: spark_example_def)
  have h2: "\<forall>rows\<in>set (partitions (partition_sizes spark_example)
          (join [song_example] (with_timestamp ?df))). length rows \<le> 2 ^ 33"
    by (simp add: w j spark_example_def)
  have "length (song_plays spark_example [song_example] ?df) = 2"
    by (simp add: song_plays_def w j with_songplay_id_def spark_example_def)
  moreover have "length (partition_sizes spark_example) = 1"
    by (simp add: spark_example_def)
  moreover have "map length (partitions (partition_sizes spark_example)
          (join [song_example] (with_timestamp ?df))) = [1, 1]"
    by (simp add: w j spark_example_def)
  ultimately show ?thesis using songplay_id_unique [OF h1 h2] by blast
qed

subsection \<open>Month and year across tables\<close>

text \<open>
  Claim C6: every row of the song-plays table has a row of the time table with its
  \<open>start_time\<close>, and its month and year are those of every such row.
\<close>

theorem month_year_consistency:
  "\<forall>f\<in>set (song_plays spark song_df df).
     (\<exists>t\<in>set (time_table df). time_start_time t = plays_start_time f)
     \<and> (\<forall>t\<in>set (time_table df). time_start_time t = plays_start_time f
           \<longrightarrow> plays_month f = time_month t \<and> plays_year f = time_year t)"
proof
  fix f assume f: "f \<in> set (song_plays spark song_df df)"
  from plays_row_columns(3) [OF f] obtain l
    where l: "l \<in> set (with_timestamp df)" "plays_start_time f = ts l" by blast
  have "with_weekday (time_select_of l) \<in> set (time_table df)"
    using l(1) by (simp add: set_time_table)
  moreover have "time_start_time (with_weekday (time_select_of l)) = plays_start_time f"
    by (simp add: with_weekday_def time_select_of_def l(2))
  ultimately have ex: "\<exists>t\<in>set (time_table df). time_start_time t = plays_start_time f"
    by blast
  have "\<forall>t\<in>set (time_table df). time_start_time t = plays_start_time f
           \<longrightarrow> plays_month f = time_month t \<and> plays_year f = time_year t"
    by (simp add: time_row_columns(1,2) plays_row_columns(1,2) [OF f])
  with ex show "(\<exists>t\<in>set (time_table df). time_start_time t = plays_start_time f)
     \<and> (\<forall>t\<in>set (time_table df). time_start_time t = plays_start_time f
           \<longrightarrow> plays_month f = time_month t \<and> plays_year f = time_year t)"
    by blast
qed

theorem month_year_consistency_witness:
  "\<lparr>plays_songplay_id = 0, plays_start_time = Some 0, plays_user_id = Some ''7'',
     plays_level = Some ''free'', plays_song_id = Some ''SO1'', plays_artist_id = Some ''AR1'',
     plays_session_id = Some 1, plays_location = Some ''Leeds'',
     plays_user_agent = Some ''Mozilla'', plays_month = Some 1, plays_year = Some 1970\<rparr>
     \<in> set (song_plays spark_example [song_example]
          [log_example ''7'' ''NextSong'' 0, log_example ''8'' ''Login'' 0])
   \<and> \<lparr>time_start_time = Some 0, time_hour = Some 0, time_day = Some 1, time_week = Some 1,
      time_month = Some 1, time_year = Some 1970, time_weekday = Some ''4''\<rparr>
     \<in> set (time_table [log_example ''7'' ''NextSong'' 0, log_example ''8'' ''Login'' 0])"
proof -
  let ?df = "[log_example ''7'' ''NextSong'' 0, log_example ''8'' ''Login'' 0]"
  let ?f = "\<lparr>plays_songplay_id = 0, plays_start_time = Some 0, plays_user_id = Some ''7'',
     plays_level = Some ''free'', plays_song_id = Some ''SO1'', plays_artist_id = Some ''AR1'',
     plays_session_id = Some 1, plays_location = Some ''Leeds'',
     plays_user_agent = Some ''Mozilla'', plays_month = Some 1, plays_year = Some 1970\<rparr>"
  have "plays_select (0, song_example, log_example ''7'' ''NextSong'' 0) = ?f"
    by (simp add: plays_select_def time_columns_0) (simp add: log_example_def song_example_def time_columns_0)
  then have sp: "song_plays spark_example [song_example] ?df = [?f]"
    by (simp add: song_plays_def with_timestamp_example join_example with_songplay_id_example)
  then have f: "?f \<in> set (song_plays spark_example [song_example] ?df)" by simp
  from month_year_consistency [of spark_example "[song_example]" ?df] f
  obtain t where t: "t \<in> set (time_table ?df)" "time_start_time t = plays_start_time ?f"
    "plays_month ?f = time_month t" "plays_year ?f = time_year t"
    by blast
  have "time_table ?df = [\<lparr>time_start_time = Some 0, time_hour = Some 0, time_day = Some 1, time_week = Some 1,
      time_month = Some 1, time_year = Some 1970, time_weekday = Some ''4''\<rparr>]"
    by (simp add: time_table_def with_timestamp_example distinct_rows_def time_row_example)
  with t(1) f show ?thesis by simp
qed

subsection \<open>The filter\<close>

text \<open>
  Claim C7: for a log dataset whose pages are drawn from \<open>NextSong\<close>, \<open>Login\<close> and \<open>Help\<close>,
  only the \<open>NextSong\<close> rows contribute to the time table and to the song-plays table. The
  rows of the time table are exactly the time rows of the \<open>NextSong\<close> rows, and the pairs
  behind the song-plays table are exactly the matching pairs of a song record and a
  \<open>NextSong\<close> row; both tables are those of the \<open>NextSong\<close> rows alone, and a dataset of
  \<open>Login\<close> and \<open>Help\<close> rows gives two empty tables.
\<close>

theorem filter_correctness:
  assumes "\<forall>l\<in>set df. page l \<in> {Some ''NextSong'', Some ''Login'', Some ''Help''}"
  shows "set (time_table df)
       = (\<lambda>l. with_weekday (time_select_of (convert_ts l))) ` {l \<in> set df. page l = Some ''NextSong''}
    \<and> snd ` set (with_songplay_id spark (join song_df (with_timestamp df)))
       = {(s, convert_ts l) | s l. s \<in> set song_df \<and> l \<in> set df \<and> page l = Some ''NextSong''
            \<and> matches s l}
    \<and> song_plays spark song_df df
       = map plays_select (with_songplay_id spark (join song_df (with_timestamp df)))
    \<and> time_table df = time_table [l\<leftarrow>df. page l = Some ''NextSong'']
    \<and> song_plays spark song_df df = song_plays spark song_df [l\<leftarrow>df. page l = Some ''NextSong'']
    \<and> (\<forall>t\<in>set (time_table df). \<exists>l\<in>set df. page l = Some ''NextSong''
          \<and> t = with_weekday (time_select_of (convert_ts l)))
    \<and> (\<forall>f\<in>set (song_plays spark song_df df). \<exists>l\<in>set df. page l = Some ''NextSong''
          \<and> (\<exists>i s. f = plays_select (i, s, convert_ts l)))
    \<and> ((\<forall>l\<in>set df. page l = Some ''Login'' \<or> page l = Some ''Help'')
          \<longrightarrow> time_table df = [] \<and> song_plays spark song_df df = [])"
proof (intro conjI)
  show "set (time_table df)
       = (\<lambda>l. with_weekday (time_select_of (convert_ts l))) ` {l \<in> set df. page l = Some ''NextSong''}"
    by (simp add: set_time_table set_with_timestamp image_image)
  show "snd ` set (with_songplay_id spark (join song_df (with_timestamp df)))
       = {(s, convert_ts l) | s l. s \<in> set song_df \<and> l \<in> set df \<and> page l = Some ''NextSong''
            \<and> matches s l}"
    by (rule pairs_of_song_plays)
  show "song_plays spark song_df df
       = map plays_select (with_songplay_id spark (join song_df (with_timestamp df)))"
    by (simp add: song_plays_def)
  show "time_table df = time_table [l\<leftarrow>df. page l = Some ''NextSong'']"
    by (simp add: time_table_def with_timestamp_filter)
  show "song_plays spark song_df df = song_plays spark song_df [l\<leftarrow>df. page l = Some ''NextSong'']"
    by (simp add: song_plays_def with_timestamp_filter)
  show "\<forall>t\<in>set (time_table df). \<exists>l\<in>set df. page l = Some ''NextSong''
          \<and> t = with_weekday (time_select_of (convert_ts l))"
    by (auto simp: set_time_table set_with_timestamp)
  show "\<forall>f\<in>set (song_plays spark song_df df). \<exists>l\<in>set df. page l = Some ''NextSong''
          \<and> (\<exists>i s. f = plays_select (i, s, convert_ts l))"
  proof
    fix f assume "f \<in> set (song_plays spark song_df df)"
    with song_plays_rows [of spark song_df df]
    show "\<exists>l\<in>set df. page l = Some ''NextSong'' \<and> (\<exists>i s. f = plays_select (i, s, convert_ts l))"
      by blast
  qed
  show "(\<forall>l\<in>set df. page l = Some ''Login'' \<or> page l = Some ''Help'')
          \<longrightarrow> time_table df = [] \<and> song_plays spark song_df df = []"
  proof
    assume a: "\<forall>l\<in>set df. page l = Some ''Login'' \<or> page l = Some ''Help''"
    have "\<forall>l\<in>set df. page l \<noteq> Some ''NextSong''"
    proof
      fix l assume "l \<in> set df"
      with a have "page l = Some ''Login'' \<or> page l = Some ''Help''" by blast
      then show "page l \<noteq> Some ''NextSong''" by auto
    qed
    then have e: "with_timestamp df = []" by (rule with_timestamp_no_next_song)
    then show "time_table df = [] \<and> song_plays spark song_df df = []"
      by (simp add: time_table_def distinct_rows_def song_plays_no_rows)
  qed
qed

theorem filter_correctness_witness:
  "map page [log_example ''7'' ''NextSong'' 0, log_example ''8'' ''Login'' 0, log_example ''9'' ''Help'' 0]
     = [Some ''NextSong'', Some ''Login'', Some ''Help'']
   \<and> \<lparr>time_start_time = Some 0, time_hour = Some 0, time_day = Some 1, time_week = Some 1,
       time_month = Some 1, time_year = Some 1970, time_weekday = Some ''4''\<rparr>
     \<in> set (time_table
          [log_example ''7'' ''NextSong'' 0, log_example ''8'' ''Login'' 0, log_example ''9'' ''Help'' 0])
   \<and> length (time_table
          [log_example ''7'' ''NextSong'' 0, log_example ''8'' ''Login'' 0, log_example ''9'' ''Help'' 0]) = 1
   \<and> song_plays spark_example [song_example]
        [log_example ''7'' ''NextSong'' 0, log_example ''8'' ''Login'' 0, log_example ''9'' ''Help'' 0]
      = [\<lparr>plays_songplay_id = 0, plays_start_time = Some 0, plays_user_id = Some ''7'',
          plays_level = Some ''free'', plays_song_id = Some ''SO1'', plays_artist_id = Some ''AR1'',
          plays_session_id = Some 1, plays_location = Some ''Leeds'',
          plays_user_agent = Some ''Mozilla'', plays_month = Some 1, plays_year = Some 1970\<rparr>]
   \<and> time_table [log_example ''7'' ''NextSong'' 0, log_example ''8'' ''Login'' 0, log_example ''9'' ''Help'' 0]
       = time_table [log_example ''7'' ''NextSong'' 0]
   \<and> song_plays spark_example [song_example]
         [log_example ''7'' ''NextSong'' 0, log_example ''8'' ''Login'' 0, log_example ''9'' ''Help'' 0]
       = song_plays spark_example [song_example] [log_example ''7'' ''NextSong'' 0]"
proof -
  let ?df = "[log_example ''7'' ''NextSong'' 0, log_example ''8'' ''Login'' 0, log_example ''9'' ''Help'' 0]"
  let ?t = "\<lparr>time_start_time = Some 0, time_hour = Some 0, time_day = Some 1, time_week = Some 1,
       time_month = Some 1, time_year = Some 1970, time_weekday = Some ''4''\<rparr>"
  have h: "\<forall>l\<in>set ?df. page l \<in> {Some ''NextSong'', Some ''Login'', Some ''Help''}"
    by (simp add: page_example)
  have f: "[l\<leftarrow>?df. page l = Some ''NextSong''] = [log_example ''7'' ''NextSong'' 0]"
    by (simp add: page_example)
  have p: "map page ?df = [Some ''NextSong'', Some ''Login'', Some ''Help'']"
    by (simp add: page_example)
  note fc = filter_correctness [OF h, of spark_example "[song_example]"]
  have n: "log_example ''7'' ''NextSong'' 0 \<in> {l \<in> set ?df. page l = Some ''NextSong''}"
    by (simp add: page_example)
  have "with_weekday (time_select_of (convert_ts (log_example ''7'' ''NextSong'' 0)))
      \<in> set (time_table ?df)"
    using fc n by blast
  then have t: "?t \<in> set (time_table ?df)"
    by (simp only: convert_ts_example time_row_example)
  have w: "with_timestamp ?df = [log_example ''7'' ''NextSong'' 0]"
    by (simp add: with_timestamp_def df_filtered_def page_example convert_ts_example)
  have len: "length (time_table ?df) = 1"
    by (simp add: time_table_def w distinct_rows_def)
  have sp: "song_plays spark_example [song_example] ?df
      = [\<lparr>plays_songplay_id = 0, plays_start_time = Some 0, plays_user_id = Some ''7'',
          plays_level = Some ''free'', plays_song_id = Some ''SO1'', plays_artist_id = Some ''AR1'',
          plays_session_id = Some 1, plays_location = Some ''Leeds'',
          plays_user_agent = Some ''Mozilla'', plays_month = Some 1, plays_year = Some 1970\<rparr>]"
    by (simp add: song_plays_def w join_example with_songplay_id_example plays_select_example)
  from fc have "time_table ?df = time_table [l\<leftarrow>?df. page l = Some ''NextSong'']"
    and "song_plays spark_example [song_example] ?df
       = song_plays spark_example [song_example] [l\<leftarrow>?df. page l = Some ''NextSong'']"
    by blast+
  then have "time_table ?df = time_table [log_example ''7'' ''NextSong'' 0]"
    and "song_plays spark_example [song_example] ?df
       = song_plays spark_example [song_example] [log_example ''7'' ''NextSong'' 0]"
    by (simp_all only: f)
  with p t len sp show ?thesis by blast
qed

subsection \<open>Empty input\<close>

text \<open>
  Claim C8 says that globs matching no file give five empty tables and no error. As
  stated it fails: \<open>spark.read.json\<close> raises when its glob matches no file, and neither
  function catches the exception.
\<close>

theorem empty_glob_raises:
  "process_song_data spark_example \<lparr>song_data = [], log_data = []\<rparr> empty_output
     = Inl AnalysisException
   \<and> process_log_data spark_example \<lparr>song_data = [], log_data = []\<rparr> empty_output
     = Inl AnalysisException
   \<and> main spark_example \<lparr>song_data = [], log_data = []\<rparr> = Inl AnalysisException"
  by (simp add: main_def process_song_data_def process_log_data_def read_json_def)

text \<open>
  Claim C8, amended: when a glob matches no file the run raises \<open>AnalysisException\<close>; when
  both globs match files and the files hold no record, no stage raises and each of the
  five tables (songs, artists, users, time, song plays) is written with no row. What the
  written files say of the columns is not stated.
\<close>

theorem empty_input:
  "(song_data inp = [] \<or> log_data inp = [] \<longrightarrow> main spark inp = Inl AnalysisException)
   \<and> (song_data inp \<noteq> [] \<and> log_data inp \<noteq> []
        \<and> concat (song_data inp) = [] \<and> concat (log_data inp) = []
      \<longrightarrow> main spark inp
          = Inr \<lparr>songs_parquet = Some [], artist_parquet = Some [], users_parquet = Some [],
                 time_parquet = Some [], song_plays_parquet = Some []\<rparr>)"
proof (intro conjI impI)
  assume "song_data inp = [] \<or> log_data inp = []"
  then show "main spark inp = Inl AnalysisException"
    by (auto simp: main_def process_song_data_def process_log_data_def read_json_def)
next
  assume a: "song_data inp \<noteq> [] \<and> log_data inp \<noteq> []
        \<and> concat (song_data inp) = [] \<and> concat (log_data inp) = []"
  then have "read_json song_schema (song_data inp) = Inr []"
    and "read_json log_schema (log_data inp) = Inr []"
    by (simp_all only: read_json_def if_False list.map)
  then show "main spark inp
          = Inr \<lparr>songs_parquet = Some [], artist_parquet = Some [], users_parquet = Some [],
                 time_parquet = Some [], song_plays_parquet = Some []\<rparr>"
    by (simp add: main_def process_song_data_def process_log_data_def tables_of_no_rows
        empty_output_def)
qed

theorem empty_input_witness:
  "(song_data \<lparr>song_data = [[]], log_data = [[], []]\<rparr> \<noteq> []
      \<and> log_data \<lparr>song_data = [[]], log_data = [[], []]\<rparr> \<noteq> []
      \<and> concat (song_data \<lparr>song_data = [[]], log_data = [[], []]\<rparr>) = []
      \<and> concat (log_data \<lparr>song_data = [[]], log_data = [[], []]\<rparr>) = [])
   \<and> main spark_example \<lparr>song_data = [[]], log_data = [[], []]\<rparr>
       = Inr \<lparr>songs_parquet = Some [], artist_parquet = Some [], users_parquet = Some [],
              time_parquet = Some [], song_plays_parquet = Some []\<rparr>
   \<and> (log_data \<lparr>song_data = [[song_example]], log_data = []\<rparr> = []
      \<and> main spark_example \<lparr>song_data = [[song_example]], log_data = []\<rparr> = Inl AnalysisException)"
proof -
  let ?inp = "\<lparr>song_data = [[]], log_data = [[], []]\<rparr>"
  let ?inp2 = "\<lparr>song_data = [[song_example]], log_data = []\<rparr>"
  have h: "song_data ?inp \<noteq> [] \<and> log_data ?inp \<noteq> []
      \<and> concat (song_data ?inp) = [] \<and> concat (log_data ?inp) = []"
    by simp
  have h2: "log_data ?inp2 = []" by simp
  from empty_input [of ?inp spark_example] h
  have 1: "main spark_example ?inp
       = Inr \<lparr>songs_parquet = Some [], artist_parquet = Some [], users_parquet = Some [],
              time_parquet = Some [], song_plays_parquet = Some []\<rparr>"
    by blast
  from empty_input [of ?inp2 spark_example] h2
  have 2: "main spark_example ?inp2 = Inl AnalysisException"
    by blast
  from h h2 1 2 show ?thesis by blast
qed

subsection \<open>The users table\<close>

text \<open>
  Claim C9: the users table is built from the rows with \<open>page = 'NextSong'\<close> only, so a
  user all of whose log rows have another page is in no row of the users table.
\<close>

theorem users_only_from_next_song:
  assumes "\<forall>l\<in>set df. userId l = u \<longrightarrow> page l \<noteq> Some ''NextSong''"
  shows "u \<notin> users_user_id ` set (users_table df)"
  using assms by (auto simp: users_table_def distinct_rows_def df_filtered_def)

theorem users_only_from_next_song_witness:
  "map (\<lambda>l. (userId l, page l))
       [log_example ''7'' ''NextSong'' 0, log_example ''8'' ''Login'' 0, log_example ''8'' ''Help'' 0]
     = [(Some ''7'', Some ''NextSong''), (Some ''8'', Some ''Login''), (Some ''8'', Some ''Help'')]
   \<and> Some ''8'' \<notin> users_user_id `
        set (users_table [log_example ''7'' ''NextSong'' 0, log_example ''8'' ''Login'' 0, log_example ''8'' ''Help'' 0])
   \<and> Some ''7'' \<in> users_user_id `
        set (users_table [log_example ''7'' ''NextSong'' 0, log_example ''8'' ''Login'' 0, log_example ''8'' ''Help'' 0])"
proof -
  let ?df = "[log_example ''7'' ''NextSong'' 0, log_example ''8'' ''Login'' 0, log_example ''8'' ''Help'' 0]"
  have h: "\<forall>l\<in>set ?df. userId l = Some ''8'' \<longrightarrow> page l \<noteq> Some ''NextSong''"
    by (simp add: log_example_def)
  have "Some ''7'' \<in> users_user_id ` set (users_table ?df)"
    by (simp add: users_table_def distinct_rows_def df_filtered_def log_example_def)
  moreover have "map (\<lambda>l. (userId l, page l)) ?df
     = [(Some ''7'', Some ''NextSong''), (Some ''8'', Some ''Login''), (Some ''8'', Some ''Help'')]"
    by (simp add: log_example_def)
  ultimately show ?thesis using users_only_from_next_song [OF h] by blast
qed

subsection \<open>Single precision\<close>

lemma bitlen_41:
  assumes "2 ^ 40 \<le> n" "n < 2 ^ 41"
  shows "bitlen n = 41"
proof -
  have "0 \<le> n - 2 ^ 40" "n - 2 ^ 40 < 2 ^ 40"
    using assms by simp_all
  from bitlen_twopow_add_eq [OF this] show ?thesis by simp
qed

lemma float32_2_40:
  assumes "2 ^ 40 \<le> n" "n < 2 ^ 41"
  shows "2 ^ 17 dvd float32 n" and "\<bar>float32 n - n\<bar> \<le> 2 ^ 16"
proof -
  have pos: "0 < n" "\<bar>n\<bar> = n" "\<not> n < 16777216" "sgn n = 1"
    using assms(1) by simp_all
  define m where "m = n div 2 ^ 17"
  define r where "r = n mod 2 ^ 17"
  have n: "n = m * 2 ^ 17 + r" and r: "0 \<le> r" "r < 2 ^ 17"
    by (simp_all add: m_def r_def)
  have f: "float32 n = (if 2 ^ 17 < 2 * r \<or> (2 * r = 2 ^ 17 \<and> odd m) then m + 1 else m) * 2 ^ 17"
    by (simp add: float32_def pos bitlen_41 [OF assms] Let_def m_def r_def)
  show "2 ^ 17 dvd float32 n"
    by (simp add: f)
  have "float32 n - n
      = (if 2 ^ 17 < 2 * r \<or> (2 * r = 2 ^ 17 \<and> odd m) then m + 1 else m) * 2 ^ 17 - n"
    by (simp only: f)
  also have "\<dots> = (if 2 ^ 17 < 2 * r \<or> (2 * r = 2 ^ 17 \<and> odd m) then 2 ^ 17 - r else - r)"
    using n by (simp add: algebra_simps)
  finally show "\<bar>float32 n - n\<bar> \<le> 2 ^ 16"
    using r by (simp split: if_splits)
qed

text \<open>
  Claim C10: \<open>ts\<close> is read as a single-precision number, so an epoch-millisecond value of
  realistic size (between \<open>2^40\<close> and \<open>2^41\<close>, about \<open>1.5e12\<close>) is rounded to a multiple
  of \<open>2^17\<close> milliseconds, at most \<open>2^16\<close> away; two log rows whose \<open>ts\<close> differ by one
  second, and whose start times would differ without the rounding, are read as the same
  number and give one row of the time table.
\<close>

theorem ts_single_precision:
  "(\<forall>n. 2 ^ 40 \<le> n \<and> n < 2 ^ 41 \<longrightarrow> 2 ^ 17 dvd float32 n \<and> \<bar>float32 n - n\<bar> \<le> 2 ^ 16)
   \<and> float32 1541106106796 = float32 1541106107796
   \<and> start_time_of (Some 1541106106796) \<noteq> start_time_of (Some 1541106107796)
   \<and> map time_start_time
        (time_table (map log_schema
           [log_example ''7'' ''NextSong'' 1541106106796, log_example ''7'' ''NextSong'' 1541106107796]))
       = [Some 1541106051000000]"
proof (intro conjI)
  show "\<forall>n. 2 ^ 40 \<le> n \<and> n < 2 ^ 41 \<longrightarrow> 2 ^ 17 dvd float32 n \<and> \<bar>float32 n - n\<bar> \<le> 2 ^ 16"
    using float32_2_40 by blast
  show "float32 1541106106796 = float32 1541106107796"
    by (simp only: float32_examples)
  show "start_time_of (Some 1541106106796) \<noteq> start_time_of (Some 1541106107796)"
    by (simp only: start_time_of_examples) simp
  have "map log_schema
           [log_example ''7'' ''NextSong'' 1541106106796, log_example ''7'' ''NextSong'' 1541106107796]
        = [log_example ''7'' ''NextSong'' 1541106171904, log_example ''7'' ''NextSong'' 1541106171904]"
    by (simp add: log_schema_def log_example_def float32_examples float32_small)
  moreover have "convert_ts (log_example ''7'' ''NextSong'' 1541106171904)
        = (log_example ''7'' ''NextSong'' 1541106171904)\<lparr>ts := Some 1541106051000000\<rparr>"
    by (simp add: convert_ts_def log_example_def start_time_of_examples)
  ultimately show "map time_start_time
        (time_table (map log_schema
           [log_example ''7'' ''NextSong'' 1541106106796, log_example ''7'' ''NextSong'' 1541106107796]))
       = [Some 1541106051000000]"
    by (simp add: time_table_def with_timestamp_def df_filtered_def page_example distinct_rows_def
        with_weekday_def time_select_of_def)
qed

theorem ts_single_precision_witness:
  "(2 ^ 40 \<le> (1541106106796 :: int) \<and> (1541106106796 :: int) < 2 ^ 41)
   \<and> 2 ^ 17 dvd float32 1541106106796 \<and> \<bar>float32 1541106106796 - 1541106106796\<bar> \<le> 2 ^ 16"
proof -
  have h: "2 ^ 40 \<le> (1541106106796 :: int) \<and> (1541106106796 :: int) < 2 ^ 41" by simp
  from ts_single_precision have "2 ^ 40 \<le> (1541106106796 :: int) \<and> (1541106106796 :: int) < 2 ^ 41
      \<longrightarrow> 2 ^ 17 dvd float32 1541106106796 \<and> \<bar>float32 1541106106796 - 1541106106796\<bar> \<le> 2 ^ 16"
    by blast
  with h show ?thesis by blast
qed

end
